theory Spec2Isabelle
  imports Complex_Main "HOL-Library.Sublist"
begin

section \<open>Python strings\<close>

text \<open>
  A Python \<open>str\<close> is modelled as a \<open>string\<close>: one \<open>char\<close> per code point, for the code
  points 0..255 (Latin-1), so that \<open>length\<close> is Python's \<open>len\<close>. The predicates below
  are \<open>str.isspace\<close> and \<open>str.lower\<close> on that range.
\<close>

definition py_isspace :: "char \<Rightarrow> bool" where
  "py_isspace c =
     (let n = (of_char c :: nat)
      in (9 \<le> n \<and> n \<le> 13) \<or> (28 \<le> n \<and> n \<le> 32) \<or> n = 133 \<or> n = 160)"

definition py_lower_char :: "char \<Rightarrow> char" where
  "py_lower_char c =
     (let n = (of_char c :: nat)
      in if (65 \<le> n \<and> n \<le> 90) \<or> (192 \<le> n \<and> n \<le> 222 \<and> n \<noteq> 215)
         then char_of (n + 32) else c)"

definition lower :: "string \<Rightarrow> string" where
  "lower s = map py_lower_char s"

text \<open>\<open>s.strip()\<close>: leading and trailing whitespace removed.\<close>

definition strip :: "string \<Rightarrow> string" where
  "strip s = rev (dropWhile py_isspace (rev (dropWhile py_isspace s)))"

text \<open>\<open>s.endswith(suf)\<close>.\<close>

definition endswith :: "string \<Rightarrow> string \<Rightarrow> bool" where
  "endswith s suf = suffix suf s"

text \<open>\<open>s.split('-')[0]\<close>: the part before the first hyphen.\<close>

definition split_hyphen_0 :: "string \<Rightarrow> string" where
  "split_hyphen_0 s = takeWhile (\<lambda>c. c \<noteq> CHR ''-'') s"

text \<open>\<open>str(n)\<close> for a non-negative integer, as the f-strings format lengths.\<close>

definition digit_char :: "nat \<Rightarrow> char" where
  "digit_char d = ''0123456789'' ! d"

function str_nat :: "nat \<Rightarrow> string" where
  "str_nat n = (if n < 10 then [digit_char n] else str_nat (n div 10) @ [digit_char (n mod 10)])"
  by pat_completeness auto
termination
  by (relation "measure (\<lambda>n. n)") auto

declare str_nat.simps [simp del]

text \<open>A string between single quotes, as \<open>str\<close> shows the key of a \<open>KeyError\<close>.\<close>

definition quoted :: "string \<Rightarrow> string" where
  "quoted s = [CHR 0x27] @ s @ [CHR 0x27]"

section \<open>Faults\<close>

text \<open>
  The exceptions that can arise inside an operation, each with its \<open>str(e)\<close>. All of
  them are subclasses of Python's \<open>Exception\<close>.
\<close>

datatype fault =
    DeepLException string
  | ClientError string
  | TranslationError string
  | ValueError string
  | KeyError string
  | IndexError string
  | AttributeError string
  | ConfigurationError string
  | OtherException string

fun str_of :: "fault \<Rightarrow> string" where
  "str_of (DeepLException m) = m"
| "str_of (ClientError m) = m"
| "str_of (TranslationError m) = m"
| "str_of (ValueError m) = m"
| "str_of (KeyError m) = m"
| "str_of (IndexError m) = m"
| "str_of (AttributeError m) = m"
| "str_of (ConfigurationError m) = m"
| "str_of (OtherException m) = m"

section \<open>Language codes\<close>

definition get_root_lang_code :: "string \<Rightarrow> string" where
  "get_root_lang_code lang_code =
     (if CHR ''-'' \<in> set lang_code then lower (split_hyphen_0 lang_code) else lang_code)"

definition supported_language_map :: "(string \<times> string) list" where
  "supported_language_map =
     [(''ar'', ''AR''), (''bg'', ''BG''), (''cs'', ''CS''), (''da'', ''DA''), (''de'', ''DE''),
      (''el'', ''EL''), (''en'', ''EN''), (''en-GB'', ''EN-GB''), (''en-US'', ''EN-US''),
      (''es'', ''ES''), (''es-419'', ''ES-419''), (''et'', ''ET''), (''fi'', ''FI''),
      (''fr'', ''FR''), (''he'', ''HE''), (''hu'', ''HU''), (''id'', ''ID''), (''it'', ''IT''),
      (''ja'', ''JA''), (''ko'', ''KO''), (''lt'', ''LT''), (''lv'', ''LV''), (''nb'', ''NB''),
      (''nl'', ''NL''), (''pl'', ''PL''), (''pt'', ''PT''), (''pt-BR'', ''PT-BR''),
      (''pt-PT'', ''PT-PT''), (''ro'', ''RO''), (''ru'', ''RU''), (''sk'', ''SK''),
      (''sl'', ''SL''), (''sv'', ''SV''), (''th'', ''TH''), (''tr'', ''TR''), (''uk'', ''UK''),
      (''vi'', ''VI''), (''zh'', ''ZH''), (''zh-HANS'', ''ZH-HANS''), (''zh-HANT'', ''ZH-HANT'')]"

definition map_language_code :: "string \<Rightarrow> fault + string" where
  "map_language_code lang_code =
     (case map_of supported_language_map lang_code of
        Some v \<Rightarrow> Inr v
      | None \<Rightarrow> Inl (ValueError ''Unsupported Language''))"

section \<open>Data model\<close>

record translation_config =
  api_key :: string
  timeout :: int
  endpoint :: "string option"

datatype translation_status = SUCCESS | ERROR

record response_metadata =
  detected_language :: string
  confidence :: real
  provider :: string
  model :: string
  billed_characters :: nat

record translation_response =
  translated_text :: string
  status :: translation_status
  source_lang :: string
  target_lang :: string
  char_count :: nat
  metadata :: "response_metadata option"
  error :: "string option"

text \<open>
  Modelled from the spec: the host framework's response constructor \<open>_create_response\<close>
  (base class, not part of this repository's sources). It echoes its arguments into the
  uniform response shape; the status is ERROR exactly when an error message is present.
\<close>

definition create_response ::
  "string \<Rightarrow> string \<Rightarrow> string \<Rightarrow> nat \<Rightarrow> response_metadata option \<Rightarrow> string option
     \<Rightarrow> translation_response" where
  "create_response txt src tgt n md err =
     \<lparr>translated_text = txt,
      status = (case err of None \<Rightarrow> SUCCESS | Some _ \<Rightarrow> ERROR),
      source_lang = src, target_lang = tgt, char_count = n, metadata = md, error = err\<rparr>"

section \<open>The vendor client, the HTTP transport and the remote service\<close>

text \<open>The vendor client object: what \<open>deepl.Translator(auth_key, server_url)\<close> was built with.\<close>

record deepl_client =
  auth_key :: string
  server_url :: string

text \<open>
  A \<open>TextResult\<close> of the vendor client; \<open>detected_source_lang\<close> is \<open>None\<close> when the
  attribute holds Python's \<open>None\<close>.
\<close>

record text_result =
  result_text :: string
  detected_source_lang :: "string option"

text \<open>\<open>translate_text\<close> takes a string or a list of strings, and returns one result or a list.\<close>

datatype sdk_text = Str string | StrList "string list"

datatype sdk_result = TextResult text_result | TextResults "text_result list"

text \<open>
  The JSON exchanged with \<open>/v2/translate\<close>. In a reply, a field that is \<open>None\<close> stands for
  a key that is absent.
\<close>

record json_data =
  json_text :: "string list"
  json_target_lang :: string
  json_source_lang :: "string option"

record http_request =
  url :: string
  headers :: "(string \<times> string) list"
  json :: json_data
  timeout_total :: int

record json_translation =
  tr_text :: "string option"
  tr_detected_source_language :: "string option"

record json_result =
  json_translations :: "json_translation list option"

record usage_detail =
  count :: int
  limit :: int
  limit_reached :: "bool option"

record usage =
  character :: "usage_detail option"
  document :: "usage_detail option"
  team_document :: "usage_detail option"

text \<open>
  Everything outside the adapter: the vendor library's constructor and methods, the HTTP
  POST (send, \<open>raise_for_status\<close>, read the JSON), and the host framework's user agent.
  Each returns its value or raises a fault.
\<close>

record world =
  deepl_Translator :: "string \<Rightarrow> string \<Rightarrow> fault option"
  translate_text :: "deepl_client \<Rightarrow> sdk_text \<Rightarrow> string option \<Rightarrow> string \<Rightarrow> fault + sdk_result"
  session_post :: "http_request \<Rightarrow> fault + json_result"
  get_source_languages :: "deepl_client \<Rightarrow> fault + string list"
  get_target_languages :: "deepl_client \<Rightarrow> fault + string list"
  get_usage :: "deepl_client \<Rightarrow> fault + usage"
  get_user_agent :: string

text \<open>The network calls an operation makes, in order.\<close>

datatype net_call =
    SdkCall deepl_client sdk_text "string option" string
  | HttpCall http_request

section \<open>The adapter\<close>

definition max_chunk_size :: nat where
  "max_chunk_size = 30000"

text \<open>
  The adapter object. Its \<open>_client\<close> slot is \<open>cached_client\<close>; the \<open>_async_session\<close> slot
  is set to \<open>None\<close> at construction and never used, and is left out.
\<close>

record deepl_translator =
  config :: translation_config
  cached_client :: "deepl_client option"
  is_free_api :: bool
  base_url :: string

definition is_free_api_key :: "string \<Rightarrow> bool" where
  "is_free_api_key key = endswith key '':fx''"

definition get_api_endpoint :: "bool \<Rightarrow> string" where
  "get_api_endpoint free = (if free then ''https://api-free.deepl.com'' else ''https://api.deepl.com'')"

text \<open>
  Modelled from the spec: the base class constructor called by \<open>__init__\<close> only records the
  configuration, without validating it.
\<close>

definition init :: "translation_config \<Rightarrow> deepl_translator" where
  "init cfg =
     \<lparr>config = cfg, cached_client = None,
      is_free_api = is_free_api_key (api_key cfg),
      base_url = get_api_endpoint (is_free_api_key (api_key cfg))\<rparr>"

text \<open>The \<open>client\<close> property: the cached client, or a new one that is then cached.\<close>

definition client :: "world \<Rightarrow> deepl_translator \<Rightarrow> deepl_translator \<times> (fault + deepl_client)" where
  "client w self =
     (case cached_client self of
        Some c \<Rightarrow> (self, Inr c)
      | None \<Rightarrow>
          (let ep = (case endpoint (config self) of
                       Some e \<Rightarrow> if e \<noteq> [] then Some e else None
                     | None \<Rightarrow> None);
               server = (case ep of Some e \<Rightarrow> e | None \<Rightarrow> base_url self)
           in case deepl_Translator w (api_key (config self)) server of
                Some f \<Rightarrow> (self, Inl f)
              | None \<Rightarrow>
                  (let c = \<lparr>auth_key = api_key (config self), server_url = server\<rparr>
                   in (self\<lparr>cached_client := Some c\<rparr>, Inr c))))"

definition get_headers :: "world \<Rightarrow> deepl_translator \<Rightarrow> (string \<times> string) list" where
  "get_headers w self =
     [(''Authorization'', ''DeepL-Auth-Key '' @ api_key (config self)),
      (''Content-Type'', ''application/json''),
      (''User-Agent'', get_user_agent w)]"

subsection \<open>Steps shared by the four translate operations\<close>

text \<open>The source language: \<open>None\<close> for \<open>auto\<close>, else the mapping of the root code.\<close>

definition map_source_lang :: "string \<Rightarrow> fault + string option" where
  "map_source_lang src =
     (if src \<noteq> ''auto''
      then (case map_language_code (get_root_lang_code src) of
              Inl e \<Rightarrow> Inl e
            | Inr v \<Rightarrow> Inr (Some v))
      else Inr None)"

text \<open>The target language: the exact code, and on \<open>ValueError\<close> the root code.\<close>

definition map_target_lang :: "string \<Rightarrow> fault + string" where
  "map_target_lang tgt =
     (case map_language_code tgt of
        Inr v \<Rightarrow> Inr v
      | Inl e \<Rightarrow>
          (case e of
             ValueError _ \<Rightarrow> map_language_code (get_root_lang_code tgt)
           | _ \<Rightarrow> Inl e))"

definition too_long_message :: "string \<Rightarrow> string" where
  "too_long_message text =
     ''Text length ('' @ str_nat (length text) @ '') exceeds DeepL's maximum of ''
       @ str_nat max_chunk_size @ '' characters''"

definition success_metadata :: "string \<Rightarrow> nat \<Rightarrow> response_metadata" where
  "success_metadata detected_lang billed =
     \<lparr>detected_language = detected_lang, confidence = 1, provider = ''deepl'',
      model = ''deepl-api'', billed_characters = billed\<rparr>"

text \<open>
  The response of a translated text, as each operation builds it: the character count and
  the billed characters are the length of the original text.
\<close>

definition translated_response ::
  "string \<Rightarrow> string \<Rightarrow> string \<Rightarrow> string \<Rightarrow> string \<Rightarrow> translation_response" where
  "translated_response src tgt text translated detected_lang =
     create_response translated src tgt (length text)
       (Some (success_metadata detected_lang (length text))) None"

text \<open>
  The detected language: the vendor client's result gives it lower-cased when it is set,
  else the caller's source language as supplied; the JSON reply gives it, or the caller's
  source language when the key is absent, lower-cased in both cases.
\<close>

definition sdk_detected_lang :: "text_result \<Rightarrow> string \<Rightarrow> string" where
  "sdk_detected_lang result src =
     (case detected_source_lang result of
        Some d \<Rightarrow> if d \<noteq> [] then lower d else src
      | None \<Rightarrow> src)"

definition json_detected_lang :: "json_translation \<Rightarrow> string \<Rightarrow> string" where
  "json_detected_lang translation src =
     lower (case tr_detected_source_language translation of Some d \<Rightarrow> d | None \<Rightarrow> src)"

text \<open>The handlers: the first clause prefixes the message, \<open>except Exception\<close> takes the rest.\<close>

definition sync_error_message :: "fault \<Rightarrow> string" where
  "sync_error_message e =
     (case e of DeepLException m \<Rightarrow> ''DeepL API error: '' @ m | _ \<Rightarrow> str_of e)"

definition async_error_message :: "fault \<Rightarrow> string" where
  "async_error_message e =
     (case e of ClientError m \<Rightarrow> ''DeepL API error: '' @ m | _ \<Rightarrow> str_of e)"

text \<open>The first loop of the bulk operations: the non-empty texts and their original indices.\<close>

fun filter_valid ::
  "string list \<Rightarrow> nat \<Rightarrow> (nat \<rightharpoonup> nat) \<times> string list \<Rightarrow> (nat \<rightharpoonup> nat) \<times> string list" where
  "filter_valid [] i (text_mapping, valid_texts) = (text_mapping, valid_texts)"
| "filter_valid (text # rest) i (text_mapping, valid_texts) =
     (if strip text \<noteq> []
      then filter_valid rest (Suc i) (text_mapping(length valid_texts \<mapsto> i), valid_texts @ [text])
      else filter_valid rest (Suc i) (text_mapping, valid_texts))"

text \<open>The last loop of the bulk operations: every slot still \<open>None\<close> gets the empty response.\<close>

definition fill_empty ::
  "string \<Rightarrow> string \<Rightarrow> translation_response option list \<Rightarrow> translation_response list" where
  "fill_empty src tgt responses =
     map (\<lambda>r. case r of None \<Rightarrow> create_response [] src tgt 0 None None | Some x \<Rightarrow> x) responses"

subsection \<open>translate\<close>

text \<open>
  The body of the \<open>try\<close> block: the adapter (its client may have been created), the network
  calls made, and the response returned or the fault raised.
\<close>

definition translate_try ::
  "world \<Rightarrow> deepl_translator \<Rightarrow> string \<Rightarrow> string \<Rightarrow> string
     \<Rightarrow> deepl_translator \<times> net_call list \<times> (fault + translation_response)" where
  "translate_try w self text src tgt =
     (if strip text = [] then (self, [], Inr (create_response [] src tgt 0 None None))
      else if length text > max_chunk_size
      then (self, [], Inl (TranslationError (too_long_message text)))
      else
        (case map_source_lang src of
           Inl e \<Rightarrow> (self, [], Inl e)
         | Inr source_mapped \<Rightarrow>
        (case map_target_lang tgt of
           Inl e \<Rightarrow> (self, [], Inl e)
         | Inr target_mapped \<Rightarrow>
        (case client w self of
           (self', Inl e) \<Rightarrow> (self', [], Inl e)
         | (self', Inr c) \<Rightarrow>
        (let call = SdkCall c (Str text) source_mapped target_mapped
         in case translate_text w c (Str text) source_mapped target_mapped of
              Inl e \<Rightarrow> (self', [call], Inl e)
            | Inr (TextResults rs) \<Rightarrow>
                (self', [call],
                 Inl (AttributeError (quoted ''list'' @ '' object has no attribute ''
                                       @ quoted ''detected_source_lang'')))
            | Inr (TextResult result) \<Rightarrow>
                (let detected_lang = sdk_detected_lang result src
                 in (self', [call],
                     Inr (translated_response src tgt text (result_text result)
                            detected_lang))))))))"

definition translate ::
  "world \<Rightarrow> deepl_translator \<Rightarrow> string \<Rightarrow> string \<Rightarrow> string
     \<Rightarrow> deepl_translator \<times> net_call list \<times> translation_response" where
  "translate w self text src tgt =
     (case translate_try w self text src tgt of
        (self', calls, Inr response) \<Rightarrow> (self', calls, response)
      | (self', calls, Inl e) \<Rightarrow>
          (self', calls,
           create_response [] src tgt (length text) None (Some (sync_error_message e))))"

subsection \<open>bulk_translate\<close>

text \<open>The loop over the results, writing each response at its text's original index.\<close>

fun scatter ::
  "string list \<Rightarrow> (nat \<rightharpoonup> nat) \<Rightarrow> string \<Rightarrow> string \<Rightarrow> text_result list \<Rightarrow> nat
     \<Rightarrow> translation_response option list \<Rightarrow> fault + translation_response option list" where
  "scatter texts text_mapping src tgt [] i responses = Inr responses"
| "scatter texts text_mapping src tgt (result # rest) i responses =
     (case text_mapping i of
        None \<Rightarrow> Inl (KeyError (str_nat i))
      | Some original_index \<Rightarrow>
          (let detected_lang = sdk_detected_lang result src
           in if original_index \<ge> length texts
              then Inl (IndexError ''list index out of range'')
              else if original_index \<ge> length responses
              then Inl (IndexError ''list assignment index out of range'')
              else scatter texts text_mapping src tgt rest (Suc i)
                     (responses[original_index :=
                        Some (translated_response src tgt (texts ! original_index)
                                (result_text result) detected_lang)])))"

fun as_list :: "sdk_result \<Rightarrow> text_result list" where
  "as_list (TextResult r) = [r]"
| "as_list (TextResults rs) = rs"

definition bulk_translate_try ::
  "world \<Rightarrow> deepl_translator \<Rightarrow> string list \<Rightarrow> string \<Rightarrow> string
     \<Rightarrow> deepl_translator \<times> net_call list \<times> (fault + translation_response list)" where
  "bulk_translate_try w self texts src tgt =
     (case filter_valid texts 0 (Map.empty, []) of (text_mapping, valid_texts) \<Rightarrow>
        if valid_texts = []
        then (self, [], Inr (map (\<lambda>_. create_response [] src tgt 0 None None) texts))
        else
          (case map_source_lang src of
             Inl e \<Rightarrow> (self, [], Inl e)
           | Inr source_mapped \<Rightarrow>
          (case map_target_lang tgt of
             Inl e \<Rightarrow> (self, [], Inl e)
           | Inr target_mapped \<Rightarrow>
          (case client w self of
             (self', Inl e) \<Rightarrow> (self', [], Inl e)
           | (self', Inr c) \<Rightarrow>
          (let call = SdkCall c (StrList valid_texts) source_mapped target_mapped
           in case translate_text w c (StrList valid_texts) source_mapped target_mapped of
                Inl e \<Rightarrow> (self', [call], Inl e)
              | Inr results \<Rightarrow>
                  (case scatter texts text_mapping src tgt (as_list results) 0
                          (replicate (length texts) None) of
                     Inl e \<Rightarrow> (self', [call], Inl e)
                   | Inr responses \<Rightarrow> (self', [call], Inr (fill_empty src tgt responses))))))))"

definition bulk_translate ::
  "world \<Rightarrow> deepl_translator \<Rightarrow> string list \<Rightarrow> string \<Rightarrow> string
     \<Rightarrow> deepl_translator \<times> net_call list \<times> translation_response list" where
  "bulk_translate w self texts src tgt =
     (if texts = [] then (self, [], [])
      else
        (case bulk_translate_try w self texts src tgt of
           (self', calls, Inr responses) \<Rightarrow> (self', calls, responses)
         | (self', calls, Inl e) \<Rightarrow>
             (self', calls,
              map (\<lambda>text. create_response [] src tgt (length text) None
                             (Some (sync_error_message e))) texts)))"

subsection \<open>translate_async\<close>

definition post_request ::
  "world \<Rightarrow> deepl_translator \<Rightarrow> string list \<Rightarrow> string option \<Rightarrow> string \<Rightarrow> http_request" where
  "post_request w self text_list source_mapped target_mapped =
     \<lparr>url = base_url self @ ''/v2/translate'',
      headers = get_headers w self,
      json = \<lparr>json_text = text_list, json_target_lang = target_mapped,
               json_source_lang =
                 (case source_mapped of
                    Some s \<Rightarrow> if s \<noteq> [] then Some s else None
                  | None \<Rightarrow> None)\<rparr>,
      timeout_total = timeout (config self)\<rparr>"

definition translate_async_try ::
  "world \<Rightarrow> deepl_translator \<Rightarrow> string \<Rightarrow> string \<Rightarrow> string
     \<Rightarrow> net_call list \<times> (fault + translation_response)" where
  "translate_async_try w self text src tgt =
     (if strip text = [] then ([], Inr (create_response [] src tgt 0 None None))
      else if length text > max_chunk_size
      then ([], Inl (TranslationError (too_long_message text)))
      else
        (case map_source_lang src of
           Inl e \<Rightarrow> ([], Inl e)
         | Inr source_mapped \<Rightarrow>
        (case map_target_lang tgt of
           Inl e \<Rightarrow> ([], Inl e)
         | Inr target_mapped \<Rightarrow>
        (let request = post_request w self [text] source_mapped target_mapped
         in case session_post w request of
              Inl e \<Rightarrow> ([HttpCall request], Inl e)
            | Inr result \<Rightarrow>
                (case json_translations result of
                   None \<Rightarrow> ([HttpCall request], Inl (KeyError (quoted ''translations'')))
                 | Some [] \<Rightarrow> ([HttpCall request], Inl (IndexError ''list index out of range''))
                 | Some (translation # _) \<Rightarrow>
                     (let detected_lang = json_detected_lang translation src
                      in case tr_text translation of
                           None \<Rightarrow> ([HttpCall request], Inl (KeyError (quoted ''text'')))
                         | Some t \<Rightarrow>
                             ([HttpCall request],
                              Inr (translated_response src tgt text t detected_lang))))))))"

definition translate_async ::
  "world \<Rightarrow> deepl_translator \<Rightarrow> string \<Rightarrow> string \<Rightarrow> string
     \<Rightarrow> net_call list \<times> translation_response" where
  "translate_async w self text src tgt =
     (case translate_async_try w self text src tgt of
        (calls, Inr response) \<Rightarrow> (calls, response)
      | (calls, Inl e) \<Rightarrow>
          (calls, create_response [] src tgt (length text) None (Some (async_error_message e))))"

subsection \<open>bulk_translate_async\<close>

fun scatter_async ::
  "string list \<Rightarrow> (nat \<rightharpoonup> nat) \<Rightarrow> string \<Rightarrow> string \<Rightarrow> json_translation list \<Rightarrow> nat
     \<Rightarrow> translation_response option list \<Rightarrow> fault + translation_response option list" where
  "scatter_async texts text_mapping src tgt [] i responses = Inr responses"
| "scatter_async texts text_mapping src tgt (translation # rest) i responses =
     (case text_mapping i of
        None \<Rightarrow> Inl (KeyError (str_nat i))
      | Some original_index \<Rightarrow>
          (let detected_lang = json_detected_lang translation src
           in case tr_text translation of
                None \<Rightarrow> Inl (KeyError (quoted ''text''))
              | Some t \<Rightarrow>
                  if original_index \<ge> length texts
                  then Inl (IndexError ''list index out of range'')
                  else if original_index \<ge> length responses
                  then Inl (IndexError ''list assignment index out of range'')
                  else scatter_async texts text_mapping src tgt rest (Suc i)
                         (responses[original_index :=
                            Some (translated_response src tgt (texts ! original_index) t
                                    detected_lang)])))"

definition bulk_translate_async_try ::
  "world \<Rightarrow> deepl_translator \<Rightarrow> string list \<Rightarrow> string \<Rightarrow> string
     \<Rightarrow> net_call list \<times> (fault + translation_response list)" where
  "bulk_translate_async_try w self texts src tgt =
     (case filter_valid texts 0 (Map.empty, []) of (text_mapping, valid_texts) \<Rightarrow>
        if valid_texts = []
        then ([], Inr (map (\<lambda>_. create_response [] src tgt 0 None None) texts))
        else
          (case map_source_lang src of
             Inl e \<Rightarrow> ([], Inl e)
           | Inr source_mapped \<Rightarrow>
          (case map_target_lang tgt of
             Inl e \<Rightarrow> ([], Inl e)
           | Inr target_mapped \<Rightarrow>
          (let request = post_request w self valid_texts source_mapped target_mapped
           in case session_post w request of
                Inl e \<Rightarrow> ([HttpCall request], Inl e)
              | Inr result \<Rightarrow>
                  (case json_translations result of
                     None \<Rightarrow> ([HttpCall request], Inl (KeyError (quoted ''translations'')))
                   | Some trs \<Rightarrow>
                       (case scatter_async texts text_mapping src tgt trs 0
                               (replicate (length texts) None) of
                          Inl e \<Rightarrow> ([HttpCall request], Inl e)
                        | Inr responses \<Rightarrow>
                            ([HttpCall request], Inr (fill_empty src tgt responses))))))))"

definition bulk_translate_async ::
  "world \<Rightarrow> deepl_translator \<Rightarrow> string list \<Rightarrow> string \<Rightarrow> string
     \<Rightarrow> net_call list \<times> translation_response list" where
  "bulk_translate_async w self texts src tgt =
     (if texts = [] then ([], [])
      else
        (case bulk_translate_async_try w self texts src tgt of
           (calls, Inr responses) \<Rightarrow> (calls, responses)
         | (calls, Inl e) \<Rightarrow>
             (calls,
              map (\<lambda>text. create_response [] src tgt (length text) None
                             (Some (async_error_message e))) texts)))"

subsection \<open>Auxiliary read operations\<close>

record supported_languages =
  source :: "string list"
  target :: "string list"

definition fallback_languages :: supported_languages where
  "fallback_languages =
     \<lparr>source = [''en'', ''de'', ''fr'', ''es'', ''pt'', ''it'', ''ru'', ''ja'', ''zh'', ''pl'',
                ''nl'', ''sv'', ''da'', ''no'', ''fi''],
      target = [''en-us'', ''en-gb'', ''de'', ''fr'', ''es'', ''pt-pt'', ''pt-br'', ''it'', ''ru'',
                ''ja'', ''zh'', ''pl'', ''nl'', ''sv'', ''da'', ''no'', ''fi'']\<rparr>"

definition get_supported_languages_try ::
  "world \<Rightarrow> deepl_translator \<Rightarrow> deepl_translator \<times> (fault + supported_languages)" where
  "get_supported_languages_try w self =
     (case client w self of
        (self', Inl e) \<Rightarrow> (self', Inl e)
      | (self', Inr c) \<Rightarrow>
          (case get_source_languages w c of
             Inl e \<Rightarrow> (self', Inl e)
           | Inr source_langs \<Rightarrow>
               (case get_target_languages w c of
                  Inl e \<Rightarrow> (self', Inl e)
                | Inr target_langs \<Rightarrow>
                    (self', Inr \<lparr>source = map lower source_langs,
                                 target = map lower target_langs\<rparr>))))"

definition get_supported_languages ::
  "world \<Rightarrow> deepl_translator \<Rightarrow> deepl_translator \<times> supported_languages" where
  "get_supported_languages w self =
     (case get_supported_languages_try w self of
        (self', Inr langs) \<Rightarrow> (self', langs)
      | (self', Inl e) \<Rightarrow> (self', fallback_languages))"

datatype py_value = IntV int | BoolV bool

definition get_usage_info_try ::
  "world \<Rightarrow> deepl_translator \<Rightarrow> deepl_translator \<times> (fault + (string \<times> py_value) list)" where
  "get_usage_info_try w self =
     (case client w self of
        (self', Inl e) \<Rightarrow> (self', Inl e)
      | (self', Inr c) \<Rightarrow>
          (case get_usage w c of
             Inl e \<Rightarrow> (self', Inl e)
           | Inr u \<Rightarrow>
               (case character u of
                  None \<Rightarrow> (self', Inl (AttributeError (quoted ''Usage'' @ '' object has no attribute ''
                                                @ quoted ''character'')))
                | Some ch \<Rightarrow>
                    (self', Inr
                      [(''character_count'', IntV (count ch)),
                       (''character_limit'', IntV (limit ch)),
                       (''character_limit_reached'',
                          BoolV (case limit_reached ch of Some b \<Rightarrow> b | None \<Rightarrow> False)),
                       (''document_count'',
                          IntV (case document u of Some d \<Rightarrow> count d | None \<Rightarrow> 0)),
                       (''document_limit'',
                          IntV (case document u of Some d \<Rightarrow> limit d | None \<Rightarrow> 0)),
                       (''team_document_count'',
                          IntV (case team_document u of Some d \<Rightarrow> count d | None \<Rightarrow> 0)),
                       (''team_document_limit'',
                          IntV (case team_document u of Some d \<Rightarrow> limit d | None \<Rightarrow> 0))]))))"

definition get_usage_info ::
  "world \<Rightarrow> deepl_translator \<Rightarrow> deepl_translator \<times> (string \<times> py_value) list" where
  "get_usage_info w self =
     (case get_usage_info_try w self of
        (self', Inr info) \<Rightarrow> (self', info)
      | (self', Inl e) \<Rightarrow> (self', []))"

section \<open>Notions for stating results\<close>

text \<open>
  For stating results: the number of non-empty texts before index \<open>p\<close>, which is the
  position of text \<open>p\<close> in the list sent over the wire.
\<close>

definition valid_rank :: "string list \<Rightarrow> nat \<Rightarrow> nat" where
  "valid_rank texts p = length (filter (\<lambda>t. strip t \<noteq> []) (take p texts))"

text \<open>
  For stating results: an index map that sends the wire position of every non-empty text
  to its original index, and is undefined beyond the texts sent.
\<close>

definition index_map_ok :: "string list \<Rightarrow> (nat \<rightharpoonup> nat) \<Rightarrow> bool" where
  "index_map_ok texts tm \<longleftrightarrow>
     (\<forall>p<length texts. strip (texts ! p) \<noteq> [] \<longrightarrow> tm (valid_rank texts p) = Some p) \<and>
     (\<forall>k\<ge>length (filter (\<lambda>t. strip t \<noteq> []) texts). tm k = None)"

section \<open>Concrete configurations and worlds\<close>

definition demo_config :: translation_config where
  "demo_config = \<lparr>api_key = ''test-deepl-key:fx'', timeout = 30, endpoint = None\<rparr>"

text \<open>The client that the adapter builds from \<open>demo_config\<close>.\<close>

definition demo_client :: deepl_client where
  "demo_client = \<lparr>auth_key = ''test-deepl-key:fx'', server_url = ''https://api-free.deepl.com''\<rparr>"

definition pro_config :: translation_config where
  "pro_config = \<lparr>api_key = ''test-deepl-key'', timeout = 30, endpoint = None\<rparr>"

definition override_config :: translation_config where
  "override_config =
     \<lparr>api_key = ''test-deepl-key'', timeout = 30, endpoint = Some ''https://proxy.example''\<rparr>"

definition no_key_config :: translation_config where
  "no_key_config = \<lparr>api_key = [], timeout = 30, endpoint = None\<rparr>"

text \<open>The vendor constructor refuses an empty key with a \<open>ValueError\<close>.\<close>

definition vendor_constructor :: "string \<Rightarrow> string \<Rightarrow> fault option" where
  "vendor_constructor key server =
     (if key = [] then Some (ValueError ''auth_key must not be empty'') else None)"

text \<open>A service that answers every text with itself and reports English as detected.\<close>

definition echo_texts :: "sdk_text \<Rightarrow> sdk_result" where
  "echo_texts t =
     (case t of
        Str s \<Rightarrow> TextResult \<lparr>result_text = s, detected_source_lang = Some ''EN''\<rparr>
      | StrList ss \<Rightarrow>
          TextResults (map (\<lambda>s. \<lparr>result_text = s, detected_source_lang = Some ''EN''\<rparr>) ss))"

definition echo_world :: world where
  "echo_world =
     \<lparr>deepl_Translator = vendor_constructor,
      translate_text = (\<lambda>c t s g. Inr (echo_texts t)),
      session_post = (\<lambda>r. Inr \<lparr>json_translations =
         Some (map (\<lambda>s. \<lparr>tr_text = Some s, tr_detected_source_language = Some ''EN''\<rparr>)
                 (json_text (json r)))\<rparr>),
      get_source_languages = (\<lambda>c. Inr [''EN'', ''DE'']),
      get_target_languages = (\<lambda>c. Inr [''EN-US'', ''DE'']),
      get_usage = (\<lambda>c. Inr \<lparr>character = Some \<lparr>count = 12345, limit = 500000,
                                                limit_reached = Some False\<rparr>,
                             document = None, team_document = None\<rparr>),
      get_user_agent = ''mt_providers''\<rparr>"

text \<open>A service that cannot be reached: every remote call raises.\<close>

definition down_world :: world where
  "down_world =
     \<lparr>deepl_Translator = vendor_constructor,
      translate_text = (\<lambda>c t s g. Inl (DeepLException ''Connection failed'')),
      session_post = (\<lambda>r. Inl (ClientError ''Connection failed'')),
      get_source_languages = (\<lambda>c. Inl (DeepLException ''Connection failed'')),
      get_target_languages = (\<lambda>c. Inl (DeepLException ''Connection failed'')),
      get_usage = (\<lambda>c. Inl (DeepLException ''Connection failed'')),
      get_user_agent = ''mt_providers''\<rparr>"

text \<open>
  A world like \<open>echo_world\<close> whose client constructor reports an empty key as a
  configuration fault.
\<close>

definition key_checking_world :: world where
  "key_checking_world =
     echo_world\<lparr>deepl_Translator :=
       (\<lambda>key server. if key = [] then Some (ConfigurationError ''API key is required'')
                     else None)\<rparr>"


section \<open>Strings and language codes: basic facts\<close>

lemma dropWhile_all_iff: "(\<forall>x\<in>set (dropWhile P s). P x) = (\<forall>c\<in>set s. P c)"
  by (induction s) auto

lemma strip_empty_iff: "strip s = [] \<longleftrightarrow> (\<forall>c\<in>set s. py_isspace c)"
  unfolding strip_def by (simp add: dropWhile_eq_Nil_conv dropWhile_all_iff)

lemma strip_Nil [simp]: "strip [] = []"
  by (simp add: strip_def)

section \<open>Filtering and index bookkeeping\<close>

lemma filter_take_nth:
  "j < length (filter P xs) \<Longrightarrow> \<exists>p<length xs. P (xs ! p) \<and> length (filter P (take p xs)) = j"
proof (induction xs arbitrary: j rule: rev_induct)
  case Nil
  then show ?case by simp
next
  case (snoc x xs)
  show ?case
  proof (cases "j < length (filter P xs)")
    case True
    from snoc.IH[OF True] obtain p where "p < length xs" "P (xs ! p)" "length (filter P (take p xs)) = j"
      by blast
    then show ?thesis
      by (intro exI[of _ p]) (simp add: nth_append)
  next
    case False
    with snoc.prems have "P x" "j = length (filter P xs)"
      by (auto split: if_splits)
    then show ?thesis
      by (intro exI[of _ "length xs"]) simp
  qed
qed

lemma filter_take_mono:
  assumes "p < q" "q \<le> length xs" "P (xs ! p)"
  shows "length (filter P (take p xs)) < length (filter P (take q xs))"
proof -
  have "take q xs = take (Suc p) xs @ drop (Suc p) (take q xs)"
    using assms(1) by (metis Suc_leI append_take_drop_id min.absorb2 take_take min.commute)
  moreover have "take (Suc p) xs = take p xs @ [xs ! p]"
    using assms by (simp add: take_Suc_conv_app_nth)
  ultimately have "filter P (take q xs) = filter P (take p xs) @ [xs ! p] @ filter P (drop (Suc p) (take q xs))"
    using assms(3) by (metis append_Cons append_Nil filter.simps(1) filter.simps(2) filter_append append_assoc)
  then show ?thesis by simp
qed

lemma filter_take_inj:
  assumes "p < length xs" "q < length xs" "P (xs ! p)" "P (xs ! q)"
    and "length (filter P (take p xs)) = length (filter P (take q xs))"
  shows "p = q"
proof (rule ccontr)
  assume "p \<noteq> q"
  then consider "p < q" | "q < p" by linarith
  then show False
    using filter_take_mono[of p q xs P] filter_take_mono[of q p xs P] assms by cases auto
qed

lemma filter_take_bound:
  assumes "p < length xs" "P (xs ! p)"
  shows "length (filter P (take p xs)) < length (filter P xs)"
  using filter_take_mono[of p "length xs" xs P] assms by simp

lemma filter_valid_snd:
  "snd (filter_valid texts i (tm, vt)) = vt @ filter (\<lambda>t. strip t \<noteq> []) texts"
  by (induction texts arbitrary: i tm vt) auto

lemma filter_valid_low:
  "k < length vt \<Longrightarrow> fst (filter_valid texts i (tm, vt)) k = tm k"
  by (induction texts arbitrary: i tm vt) auto

lemma filter_valid_high:
  "k \<ge> length vt + length (filter (\<lambda>t. strip t \<noteq> []) texts)
     \<Longrightarrow> fst (filter_valid texts i (tm, vt)) k = tm k"
  by (induction texts arbitrary: i tm vt) auto

lemma filter_valid_at:
  "p < length texts \<Longrightarrow> strip (texts ! p) \<noteq> [] \<Longrightarrow>
     fst (filter_valid texts i (tm, vt))
       (length vt + length (filter (\<lambda>t. strip t \<noteq> []) (take p texts))) = Some (i + p)"
proof (induction texts arbitrary: i tm vt p)
  case Nil
  then show ?case by simp
next
  case (Cons t ts)
  show ?case
  proof (cases p)
    case 0
    with Cons.prems show ?thesis by (simp add: filter_valid_low)
  next
    case (Suc q)
    with Cons.prems have q: "q < length ts" "strip (ts ! q) \<noteq> []" by auto
    show ?thesis
    proof (cases "strip t \<noteq> []")
      case True
      from Cons.IH[OF q, of "Suc i" "tm(length vt \<mapsto> i)" "vt @ [t]"] True Suc
      show ?thesis by (simp add: fun_upd_def)
    next
      case False
      from Cons.IH[OF q, of "Suc i" tm vt] False Suc
      show ?thesis by simp
    qed
  qed
qed

lemma filter_valid_eq:
  "filter_valid texts 0 (Map.empty, []) =
     (fst (filter_valid texts 0 (Map.empty, [])), filter (\<lambda>t. strip t \<noteq> []) texts)"
  using filter_valid_snd[of texts 0 Map.empty "[]"] by (simp add: prod_eq_iff)

lemma filter_valid_ok: "index_map_ok texts (fst (filter_valid texts 0 (Map.empty, [])))"
  unfolding index_map_ok_def valid_rank_def
  using filter_valid_at[of _ texts 0 Map.empty "[]"] filter_valid_high[of "[]" texts _ 0 Map.empty]
  by simp

section \<open>Scattering the results\<close>

lemma scatter_length:
  "scatter texts tm src tgt rs i resp = Inr resp' \<Longrightarrow> length resp' = length resp"
  by (induction rs arbitrary: i resp) (auto split: option.splits if_splits simp: Let_def)

lemma scatter_async_length:
  "scatter_async texts tm src tgt trs i resp = Inr resp' \<Longrightarrow> length resp' = length resp"
  by (induction trs arbitrary: i resp) (auto split: option.splits if_splits simp: Let_def)

lemma index_map_ok_next:
  assumes "index_map_ok texts tm" "i < length (filter (\<lambda>t. strip t \<noteq> []) texts)"
  shows "\<exists>p<length texts. strip (texts ! p) \<noteq> [] \<and> valid_rank texts p = i \<and> tm i = Some p"
proof -
  from filter_take_nth[OF assms(2)] obtain p where
    p: "p < length texts" "strip (texts ! p) \<noteq> []" "valid_rank texts p = i"
    unfolding valid_rank_def by blast
  with assms(1) have "tm i = Some p" unfolding index_map_ok_def by blast
  with p show ?thesis by blast
qed

lemma valid_rank_inj:
  "p < length texts \<Longrightarrow> q < length texts \<Longrightarrow> strip (texts ! p) \<noteq> [] \<Longrightarrow> strip (texts ! q) \<noteq> []
     \<Longrightarrow> valid_rank texts p = valid_rank texts q \<Longrightarrow> p = q"
  unfolding valid_rank_def by (rule filter_take_inj[where P = "\<lambda>t. strip t \<noteq> []"])

lemma scatter_ok:
  assumes "index_map_ok texts tm"
  shows "length resp = length texts \<Longrightarrow>
         i + length rs \<le> length (filter (\<lambda>t. strip t \<noteq> []) texts) \<Longrightarrow>
         \<exists>resp'. scatter texts tm src tgt rs i resp = Inr resp' \<and> length resp' = length texts \<and>
           (\<forall>p<length texts. resp' ! p =
              (if strip (texts ! p) \<noteq> [] \<and> i \<le> valid_rank texts p \<and> valid_rank texts p < i + length rs
               then Some (translated_response src tgt (texts ! p)
                            (result_text (rs ! (valid_rank texts p - i)))
                            (sdk_detected_lang (rs ! (valid_rank texts p - i)) src))
               else resp ! p))"
proof (induction rs arbitrary: i resp)
  case Nil
  then show ?case by auto
next
  case (Cons r rest)
  from Cons.prems have "i < length (filter (\<lambda>t. strip t \<noteq> []) texts)" by simp
  from index_map_ok_next[OF assms this] obtain p0 where
    p0: "p0 < length texts" "strip (texts ! p0) \<noteq> []" "valid_rank texts p0 = i" "tm i = Some p0"
    by blast
  define resp1 where "resp1 = resp[p0 := Some (translated_response src tgt (texts ! p0)
                                (result_text r) (sdk_detected_lang r src))]"
  have step: "scatter texts tm src tgt (r # rest) i resp = scatter texts tm src tgt rest (Suc i) resp1"
    using p0 Cons.prems by (simp add: resp1_def)
  have len1: "length resp1 = length texts" using Cons.prems by (simp add: resp1_def)
  have bound: "Suc i + length rest \<le> length (filter (\<lambda>t. strip t \<noteq> []) texts)"
    using Cons.prems by simp
  from Cons.IH[OF len1 bound] obtain resp' where
    r': "scatter texts tm src tgt rest (Suc i) resp1 = Inr resp'" "length resp' = length texts"
    and pt: "\<And>p. p < length texts \<Longrightarrow> resp' ! p =
              (if strip (texts ! p) \<noteq> [] \<and> Suc i \<le> valid_rank texts p \<and> valid_rank texts p < Suc i + length rest
               then Some (translated_response src tgt (texts ! p)
                            (result_text (rest ! (valid_rank texts p - Suc i)))
                            (sdk_detected_lang (rest ! (valid_rank texts p - Suc i)) src))
               else resp1 ! p)"
    by blast
  have "resp' ! p =
          (if strip (texts ! p) \<noteq> [] \<and> i \<le> valid_rank texts p \<and> valid_rank texts p < i + length (r # rest)
           then Some (translated_response src tgt (texts ! p)
                        (result_text ((r # rest) ! (valid_rank texts p - i)))
                        (sdk_detected_lang ((r # rest) ! (valid_rank texts p - i)) src))
           else resp ! p)" if p: "p < length texts" for p
  proof (cases "strip (texts ! p) \<noteq> [] \<and> valid_rank texts p = i")
    case True
    with p p0 have "p = p0" by (auto intro: valid_rank_inj)
    with pt[OF p] p0 Cons.prems show ?thesis by (simp add: resp1_def)
  next
    case False
    with p0 have "p \<noteq> p0" by auto
    then have "resp1 ! p = resp ! p" by (simp add: resp1_def)
    moreover have "(r # rest) ! (k - i) = rest ! (k - Suc i)" if "Suc i \<le> k" for k
      using that by (simp add: nth_Cons')
    ultimately show ?thesis
      using pt[OF p] False by (auto simp: le_Suc_eq)
  qed
  with step r' show ?case by auto
qed

lemma scatter_async_ok:
  assumes "index_map_ok texts tm"
  shows "length resp = length texts \<Longrightarrow> \<forall>t\<in>set rs. tr_text t \<noteq> None \<Longrightarrow>
         i + length rs \<le> length (filter (\<lambda>t. strip t \<noteq> []) texts) \<Longrightarrow>
         \<exists>resp'. scatter_async texts tm src tgt rs i resp = Inr resp' \<and> length resp' = length texts \<and>
           (\<forall>p<length texts. resp' ! p =
              (if strip (texts ! p) \<noteq> [] \<and> i \<le> valid_rank texts p \<and> valid_rank texts p < i + length rs
               then Some (translated_response src tgt (texts ! p)
                            (the (tr_text (rs ! (valid_rank texts p - i))))
                            (json_detected_lang (rs ! (valid_rank texts p - i)) src))
               else resp ! p))"
proof (induction rs arbitrary: i resp)
  case Nil
  then show ?case by auto
next
  case (Cons r rest)
  from Cons.prems have "i < length (filter (\<lambda>t. strip t \<noteq> []) texts)" by simp
  from index_map_ok_next[OF assms this] obtain p0 where
    p0: "p0 < length texts" "strip (texts ! p0) \<noteq> []" "valid_rank texts p0 = i" "tm i = Some p0"
    by blast
  define resp1 where "resp1 = resp[p0 := Some (translated_response src tgt (texts ! p0)
                                (the (tr_text r)) (json_detected_lang r src))]"
  have step: "scatter_async texts tm src tgt (r # rest) i resp = scatter_async texts tm src tgt rest (Suc i) resp1"
    using p0 Cons.prems by (auto simp: resp1_def)
  have len1: "length resp1 = length texts" using Cons.prems by (simp add: resp1_def)
  have bound: "Suc i + length rest \<le> length (filter (\<lambda>t. strip t \<noteq> []) texts)"
    using Cons.prems by simp
  have present: "\<forall>t\<in>set rest. tr_text t \<noteq> None" using Cons.prems by simp
  from Cons.IH[OF len1 present bound] obtain resp' where
    r': "scatter_async texts tm src tgt rest (Suc i) resp1 = Inr resp'" "length resp' = length texts"
    and pt: "\<And>p. p < length texts \<Longrightarrow> resp' ! p =
              (if strip (texts ! p) \<noteq> [] \<and> Suc i \<le> valid_rank texts p \<and> valid_rank texts p < Suc i + length rest
               then Some (translated_response src tgt (texts ! p)
                            (the (tr_text (rest ! (valid_rank texts p - Suc i))))
                            (json_detected_lang (rest ! (valid_rank texts p - Suc i)) src))
               else resp1 ! p)"
    by blast
  have "resp' ! p =
          (if strip (texts ! p) \<noteq> [] \<and> i \<le> valid_rank texts p \<and> valid_rank texts p < i + length (r # rest)
           then Some (translated_response src tgt (texts ! p)
                        (the (tr_text ((r # rest) ! (valid_rank texts p - i))))
                        (json_detected_lang ((r # rest) ! (valid_rank texts p - i)) src))
           else resp ! p)" if p: "p < length texts" for p
  proof (cases "strip (texts ! p) \<noteq> [] \<and> valid_rank texts p = i")
    case True
    with p p0 have "p = p0" by (auto intro: valid_rank_inj)
    with pt[OF p] p0 Cons.prems show ?thesis by (simp add: resp1_def)
  next
    case False
    with p0 have "p \<noteq> p0" by auto
    then have "resp1 ! p = resp ! p" by (simp add: resp1_def)
    moreover have "(r # rest) ! (k - i) = rest ! (k - Suc i)" if "Suc i \<le> k" for k
      using that by (simp add: nth_Cons')
    ultimately show ?thesis
      using pt[OF p] False by (auto simp: le_Suc_eq)
  qed
  with step r' show ?case by auto
qed

section \<open>The bulk operations\<close>

lemma fill_empty_length [simp]: "length (fill_empty src tgt rs) = length rs"
  by (simp add: fill_empty_def)

lemma fill_empty_nth:
  "p < length rs \<Longrightarrow> fill_empty src tgt rs ! p =
     (case rs ! p of None \<Rightarrow> create_response [] src tgt 0 None None | Some x \<Rightarrow> x)"
  by (simp add: fill_empty_def)

lemma bulk_translate_try_all_blank:
  "filter (\<lambda>t. strip t \<noteq> []) texts = [] \<Longrightarrow>
     bulk_translate_try w self texts src tgt =
       (self, [], Inr (map (\<lambda>_. create_response [] src tgt 0 None None) texts))"
  unfolding bulk_translate_try_def by (subst filter_valid_eq) simp

lemma bulk_translate_try_unfold:
  assumes "filter (\<lambda>t. strip t \<noteq> []) texts \<noteq> []"
    and "map_source_lang src = Inr sm" and "map_target_lang tgt = Inr tv"
    and "client w self = (self', Inr c)"
  shows "bulk_translate_try w self texts src tgt =
     (self', [SdkCall c (StrList (filter (\<lambda>t. strip t \<noteq> []) texts)) sm tv],
      case translate_text w c (StrList (filter (\<lambda>t. strip t \<noteq> []) texts)) sm tv of
        Inl e \<Rightarrow> Inl e
      | Inr results \<Rightarrow>
          (case scatter texts (fst (filter_valid texts 0 (Map.empty, []))) src tgt
                  (as_list results) 0 (replicate (length texts) None) of
             Inl e \<Rightarrow> Inl e
           | Inr responses \<Rightarrow> Inr (fill_empty src tgt responses)))"
  unfolding bulk_translate_try_def
  by (subst filter_valid_eq) (simp add: assms Let_def split: sum.splits)



lemma bulk_translate_success:
  assumes valid: "filter (\<lambda>t. strip t \<noteq> []) texts \<noteq> []"
    and src: "map_source_lang src = Inr sm" and tgt: "map_target_lang tgt = Inr tv"
    and cl: "client w self = (self', Inr c)"
    and remote: "translate_text w c (StrList (filter (\<lambda>t. strip t \<noteq> []) texts)) sm tv = Inr results"
    and len: "length (as_list results) \<le> length (filter (\<lambda>t. strip t \<noteq> []) texts)"
  shows "\<exists>rs. bulk_translate w self texts src tgt =
                 (self', [SdkCall c (StrList (filter (\<lambda>t. strip t \<noteq> []) texts)) sm tv], rs) \<and>
              length rs = length texts \<and>
              (\<forall>p<length texts. rs ! p =
                 (if strip (texts ! p) \<noteq> [] \<and> valid_rank texts p < length (as_list results)
                  then translated_response src tgt (texts ! p)
                         (result_text (as_list results ! valid_rank texts p))
                         (sdk_detected_lang (as_list results ! valid_rank texts p) src)
                  else create_response [] src tgt 0 None None))"
proof -
  from valid have ne: "texts \<noteq> []" by auto
  from scatter_ok[OF filter_valid_ok, of "replicate (length texts) None" texts 0 "as_list results" src tgt] len
  obtain resp' where
    sc: "scatter texts (fst (filter_valid texts 0 (Map.empty, []))) src tgt (as_list results) 0
           (replicate (length texts) None) = Inr resp'"
    and l: "length resp' = length texts"
    and pt: "\<And>p. p < length texts \<Longrightarrow> resp' ! p =
              (if strip (texts ! p) \<noteq> [] \<and> valid_rank texts p < length (as_list results)
               then Some (translated_response src tgt (texts ! p)
                            (result_text (as_list results ! valid_rank texts p))
                            (sdk_detected_lang (as_list results ! valid_rank texts p) src))
               else None)"
    by auto
  have "bulk_translate w self texts src tgt =
          (self', [SdkCall c (StrList (filter (\<lambda>t. strip t \<noteq> []) texts)) sm tv], fill_empty src tgt resp')"
    using ne by (simp add: bulk_translate_def bulk_translate_try_unfold[OF valid src tgt cl] remote sc)
  moreover have "fill_empty src tgt resp' ! p =
                 (if strip (texts ! p) \<noteq> [] \<and> valid_rank texts p < length (as_list results)
                  then translated_response src tgt (texts ! p)
                         (result_text (as_list results ! valid_rank texts p))
                         (sdk_detected_lang (as_list results ! valid_rank texts p) src)
                  else create_response [] src tgt 0 None None)" if "p < length texts" for p
    using that l pt[OF that] by (simp add: fill_empty_nth)
  ultimately show ?thesis using l by simp
qed

lemma bulk_translate_async_try_all_blank:
  "filter (\<lambda>t. strip t \<noteq> []) texts = [] \<Longrightarrow>
     bulk_translate_async_try w self texts src tgt =
       ([], Inr (map (\<lambda>_. create_response [] src tgt 0 None None) texts))"
  unfolding bulk_translate_async_try_def by (subst filter_valid_eq) simp

lemma bulk_translate_async_try_unfold:
  assumes "filter (\<lambda>t. strip t \<noteq> []) texts \<noteq> []"
    and "map_source_lang src = Inr sm" and "map_target_lang tgt = Inr tv"
  shows "bulk_translate_async_try w self texts src tgt =
     ([HttpCall (post_request w self (filter (\<lambda>t. strip t \<noteq> []) texts) sm tv)],
      case session_post w (post_request w self (filter (\<lambda>t. strip t \<noteq> []) texts) sm tv) of
        Inl e \<Rightarrow> Inl e
      | Inr result \<Rightarrow>
          (case json_translations result of
             None \<Rightarrow> Inl (KeyError (quoted ''translations''))
           | Some trs \<Rightarrow>
               (case scatter_async texts (fst (filter_valid texts 0 (Map.empty, []))) src tgt
                       trs 0 (replicate (length texts) None) of
                  Inl e \<Rightarrow> Inl e
                | Inr responses \<Rightarrow> Inr (fill_empty src tgt responses))))"
  unfolding bulk_translate_async_try_def
  by (subst filter_valid_eq) (simp add: assms Let_def split: sum.splits option.splits)



lemma bulk_translate_async_success:
  assumes valid: "filter (\<lambda>t. strip t \<noteq> []) texts \<noteq> []"
    and src: "map_source_lang src = Inr sm" and tgt: "map_target_lang tgt = Inr tv"
    and remote: "session_post w (post_request w self (filter (\<lambda>t. strip t \<noteq> []) texts) sm tv)
                   = Inr result"
    and trs: "json_translations result = Some trs"
    and present: "\<forall>t\<in>set trs. tr_text t \<noteq> None"
    and len: "length trs \<le> length (filter (\<lambda>t. strip t \<noteq> []) texts)"
  shows "\<exists>rs. bulk_translate_async w self texts src tgt =
                 ([HttpCall (post_request w self (filter (\<lambda>t. strip t \<noteq> []) texts) sm tv)], rs) \<and>
              length rs = length texts \<and>
              (\<forall>p<length texts. rs ! p =
                 (if strip (texts ! p) \<noteq> [] \<and> valid_rank texts p < length trs
                  then translated_response src tgt (texts ! p)
                         (the (tr_text (trs ! valid_rank texts p)))
                         (json_detected_lang (trs ! valid_rank texts p) src)
                  else create_response [] src tgt 0 None None))"
proof -
  from valid have ne: "texts \<noteq> []" by auto
  from scatter_async_ok[OF filter_valid_ok, of "replicate (length texts) None" texts trs 0 src tgt]
    len present
  obtain resp' where
    sc: "scatter_async texts (fst (filter_valid texts 0 (Map.empty, []))) src tgt trs 0
           (replicate (length texts) None) = Inr resp'"
    and l: "length resp' = length texts"
    and pt: "\<And>p. p < length texts \<Longrightarrow> resp' ! p =
              (if strip (texts ! p) \<noteq> [] \<and> valid_rank texts p < length trs
               then Some (translated_response src tgt (texts ! p)
                            (the (tr_text (trs ! valid_rank texts p)))
                            (json_detected_lang (trs ! valid_rank texts p) src))
               else None)"
    by auto
  have "bulk_translate_async w self texts src tgt =
          ([HttpCall (post_request w self (filter (\<lambda>t. strip t \<noteq> []) texts) sm tv)],
           fill_empty src tgt resp')"
    using ne
    by (simp add: bulk_translate_async_def bulk_translate_async_try_unfold[OF valid src tgt]
                  remote trs sc)
  moreover have "fill_empty src tgt resp' ! p =
                 (if strip (texts ! p) \<noteq> [] \<and> valid_rank texts p < length trs
                  then translated_response src tgt (texts ! p)
                         (the (tr_text (trs ! valid_rank texts p)))
                         (json_detected_lang (trs ! valid_rank texts p) src)
                  else create_response [] src tgt 0 None None)" if "p < length texts" for p
    using that l pt[OF that] by (simp add: fill_empty_nth)
  ultimately show ?thesis using l by simp
qed

section \<open>Single texts: empty and over-long input\<close>

lemma str_nat_small: "n < 10 \<Longrightarrow> str_nat n = [digit_char n]"
  by (simp add: str_nat.simps)

lemma str_nat_big: "\<not> n < 10 \<Longrightarrow> str_nat n = str_nat (n div 10) @ [digit_char (n mod 10)]"
  by (subst str_nat.simps) simp

lemma str_nat_max_chunk_size: "str_nat max_chunk_size = ''30000''"
  by (simp add: max_chunk_size_def str_nat_small str_nat_big digit_char_def)

lemma too_long_message_eq:
  "too_long_message text =
     ''Text length ('' @ str_nat (length text) @ '') exceeds DeepL's maximum of 30000 characters''"
  by (simp add: too_long_message_def str_nat_max_chunk_size)

lemma translate_blank:
  "strip text = [] \<Longrightarrow>
     translate w self text src tgt = (self, [], create_response [] src tgt 0 None None)"
  by (simp add: translate_def translate_try_def)

lemma translate_async_blank:
  "strip text = [] \<Longrightarrow>
     translate_async w self text src tgt = ([], create_response [] src tgt 0 None None)"
  by (simp add: translate_async_def translate_async_try_def)

lemma translate_too_long:
  "strip text \<noteq> [] \<Longrightarrow> length text > max_chunk_size \<Longrightarrow>
     translate w self text src tgt =
       (self, [], create_response [] src tgt (length text) None (Some (too_long_message text)))"
  by (simp add: translate_def translate_try_def sync_error_message_def)

lemma translate_async_too_long:
  "strip text \<noteq> [] \<Longrightarrow> length text > max_chunk_size \<Longrightarrow>
     translate_async w self text src tgt =
       ([], create_response [] src tgt (length text) None (Some (too_long_message text)))"
  by (simp add: translate_async_def translate_async_try_def async_error_message_def)

lemma strip_replicate_space: "strip (replicate n (CHR '' '')) = []"
  by (simp add: strip_empty_iff py_isspace_def)

lemma strip_replicate_a: "0 < n \<Longrightarrow> strip (replicate n (CHR ''a'')) \<noteq> []"
  by (simp add: strip_empty_iff py_isspace_def)

text \<open>
  Claim C8, as the code has it. A text longer than 30,000 characters that is not empty or
  whitespace-only gets, from \<open>translate\<close> and from \<open>translate_async\<close>, an ERROR response
  whose message names the 30000-character limit; the response carries the full length of
  the text, the adapter is unchanged and no network call is made.
\<close>

theorem too_long_text_error:
  assumes "strip text \<noteq> []" and "length text > 30000"
  shows "translate w self text src tgt =
           (self, [], create_response [] src tgt (length text) None
              (Some (''Text length ('' @ str_nat (length text)
                       @ '') exceeds DeepL's maximum of 30000 characters'')))
       \<and> translate_async w self text src tgt =
           ([], create_response [] src tgt (length text) None
              (Some (''Text length ('' @ str_nat (length text)
                       @ '') exceeds DeepL's maximum of 30000 characters'')))
       \<and> status (snd (snd (translate w self text src tgt))) = ERROR
       \<and> status (snd (translate_async w self text src tgt)) = ERROR
       \<and> char_count (snd (snd (translate w self text src tgt))) = length text
       \<and> char_count (snd (translate_async w self text src tgt)) = length text"
  using assms
  by (simp add: translate_too_long translate_async_too_long max_chunk_size_def
                too_long_message_eq create_response_def)

theorem too_long_text_error_witness:
  "strip (replicate 30001 (CHR ''a'')) \<noteq> [] \<and> length (replicate 30001 (CHR ''a'')) > 30000
   \<and> translate echo_world (init demo_config) (replicate 30001 (CHR ''a'')) ''en'' ''es'' =
       (init demo_config, [],
        create_response [] ''en'' ''es'' 30001 None
          (Some ''Text length (30001) exceeds DeepL's maximum of 30000 characters''))
   \<and> status (snd (translate_async echo_world (init demo_config) (replicate 30001 (CHR ''a''))
                     ''en'' ''es'')) = ERROR"
proof -
  have h1: "strip (replicate 30001 (CHR ''a'')) \<noteq> []" by (simp add: strip_replicate_a)
  have h2: "length (replicate 30001 (CHR ''a'')) > 30000" by simp
  have s: "str_nat 30001 = ''30001''"
    by (simp add: str_nat_small str_nat_big digit_char_def)
  from too_long_text_error[OF h1 h2, of echo_world "init demo_config" "''en''" "''es''"] h1 s
  show ?thesis by (simp add: create_response_def)
qed

text \<open>
  A whitespace-only text of 30,001 characters is longer than the limit, and both single-text
  operations answer it with SUCCESS: the emptiness check comes before the length check.
\<close>

theorem long_blank_text_counterexample:
  "length (replicate 30001 (CHR '' '')) > 30000
   \<and> status (snd (snd (translate echo_world (init demo_config) (replicate 30001 (CHR '' ''))
                         ''en'' ''es''))) = SUCCESS
   \<and> status (snd (translate_async echo_world (init demo_config) (replicate 30001 (CHR '' ''))
                         ''en'' ''es'')) = SUCCESS"
  by (simp add: translate_blank translate_async_blank strip_replicate_space create_response_def)

lemma all_blank_filter: "\<forall>t\<in>set texts. strip t = [] \<Longrightarrow> filter (\<lambda>t. strip t \<noteq> []) texts = []"
  by (simp add: filter_empty_conv)

text \<open>
  Claim C10. For a non-empty batch in which every text is empty or whitespace-only,
  \<open>bulk_translate\<close> and \<open>bulk_translate_async\<close> return one empty-text SUCCESS response of
  character count 0 per input, make no network call and leave the adapter unchanged, for
  every source and target code: the codes are not looked up.
\<close>

theorem all_blank_batch:
  assumes "texts \<noteq> []" and "\<forall>t\<in>set texts. strip t = []"
  shows "bulk_translate w self texts src tgt =
           (self, [], replicate (length texts) (create_response [] src tgt 0 None None))
       \<and> bulk_translate_async w self texts src tgt =
           ([], replicate (length texts) (create_response [] src tgt 0 None None))
       \<and> status (create_response [] src tgt 0 None None) = SUCCESS
       \<and> translated_text (create_response [] src tgt 0 None None) = []
       \<and> char_count (create_response [] src tgt 0 None None) = 0
       \<and> error (create_response [] src tgt 0 None None) = None"
  using assms
  by (simp add: bulk_translate_def bulk_translate_async_def bulk_translate_try_all_blank
                bulk_translate_async_try_all_blank all_blank_filter map_replicate_const
                create_response_def)

theorem all_blank_batch_witness:
  "[[], ''  ''] \<noteq> [] \<and> strip [] = [] \<and> strip ''  '' = []
   \<and> map_language_code ''xx'' = Inl (ValueError ''Unsupported Language'')
   \<and> map_language_code ''yy'' = Inl (ValueError ''Unsupported Language'')
   \<and> bulk_translate down_world (init no_key_config) [[], ''  ''] ''xx'' ''yy'' =
        (init no_key_config, [],
         [create_response [] ''xx'' ''yy'' 0 None None, create_response [] ''xx'' ''yy'' 0 None None])
   \<and> bulk_translate_async down_world (init no_key_config) [[], ''  ''] ''xx'' ''yy'' =
        ([], [create_response [] ''xx'' ''yy'' 0 None None, create_response [] ''xx'' ''yy'' 0 None None])"
proof -
  have h1: "[[], ''  ''] \<noteq> ([] :: string list)" by simp
  have h2: "\<forall>t\<in>set [[], ''  '']. strip t = []" by (simp add: strip_empty_iff py_isspace_def)
  have h3: "map_language_code ''xx'' = Inl (ValueError ''Unsupported Language'')"
    "map_language_code ''yy'' = Inl (ValueError ''Unsupported Language'')"
    by (simp_all add: map_language_code_def supported_language_map_def)
  from all_blank_batch[OF h1 h2, of down_world "init no_key_config" "''xx''" "''yy''"] h1 h2 h3
  show ?thesis by (simp add: numeral_2_eq_2)
qed

section \<open>Root codes and unsupported languages\<close>

lemma split_hyphen_0_append:
  "CHR ''-'' \<notin> set p \<Longrightarrow> split_hyphen_0 (p @ CHR ''-'' # rest) = p"
  unfolding split_hyphen_0_def by (induction p) auto

lemma root_with_hyphen:
  "CHR ''-'' \<notin> set p \<Longrightarrow> get_root_lang_code (p @ CHR ''-'' # rest) = lower p"
  by (simp add: get_root_lang_code_def split_hyphen_0_append)

lemma root_without_hyphen: "CHR ''-'' \<notin> set c \<Longrightarrow> get_root_lang_code c = c"
  by (simp add: get_root_lang_code_def)

lemma lower_eval:
  "lower ''en'' = ''en''" "lower ''es'' = ''es''" "lower ''pt'' = ''pt''" "lower ''zh'' = ''zh''"
  "lower ''EN'' = ''en''"
  by (simp_all add: lower_def py_lower_char_def char_of_def bit_0)

lemma hyphenated_keys:
  "filter (\<lambda>kv. CHR ''-'' \<in> set (fst kv)) supported_language_map =
     [(''en-GB'', ''EN-GB''), (''en-US'', ''EN-US''), (''es-419'', ''ES-419''),
      (''pt-BR'', ''PT-BR''), (''pt-PT'', ''PT-PT''), (''zh-HANS'', ''ZH-HANS''),
      (''zh-HANT'', ''ZH-HANT'')]"
  by (simp add: supported_language_map_def)

lemma roots_of_hyphenated:
  "map_of supported_language_map ''en'' = Some ''EN''"
  "map_of supported_language_map ''es'' = Some ''ES''"
  "map_of supported_language_map ''pt'' = Some ''PT''"
  "map_of supported_language_map ''zh'' = Some ''ZH''"
  by (simp_all add: supported_language_map_def)

lemma table_root_closed:
  assumes "map_of supported_language_map c = Some v"
  shows "map_of supported_language_map (get_root_lang_code c) \<noteq> None"
proof (cases "CHR ''-'' \<in> set c")
  case False
  with assms show ?thesis by (simp add: get_root_lang_code_def)
next
  case True
  from assms have "(c, v) \<in> set supported_language_map" by (rule map_of_SomeD)
  with True have "(c, v) \<in> set (filter (\<lambda>kv. CHR ''-'' \<in> set (fst kv)) supported_language_map)"
    by simp
  then have "c \<in> {''en-GB'', ''en-US'', ''es-419'', ''pt-BR'', ''pt-PT'', ''zh-HANS'', ''zh-HANT''}"
    unfolding hyphenated_keys by auto
  then have "split_hyphen_0 c \<in> {''en'', ''es'', ''pt'', ''zh''}"
    by (auto simp: split_hyphen_0_def)
  then have "map_of supported_language_map (lower (split_hyphen_0 c)) \<noteq> None"
    by (auto simp: lower_eval roots_of_hyphenated)
  with True show ?thesis by (simp add: get_root_lang_code_def)
qed

lemma map_language_code_root_absent:
  assumes "map_of supported_language_map (get_root_lang_code c) = None"
  shows "map_language_code c = Inl (ValueError ''Unsupported Language'')"
proof (cases "map_of supported_language_map c")
  case None
  then show ?thesis by (simp add: map_language_code_def)
next
  case (Some v)
  from table_root_closed[OF Some] assms show ?thesis by simp
qed

text \<open>
  Claim C7, as the code has it. For a code with a hyphen the root is the lower-cased part
  before the first hyphen; a code without a hyphen is its own root, unchanged (it is not
  lower-cased). A code whose root is absent from the mapping table is absent itself, so
  looking it up fails with the \<open>ValueError\<close> "Unsupported Language", both as a target
  and, when it is not \<open>auto\<close>, as a source.
\<close>

theorem root_code_and_unsupported:
  "(CHR ''-'' \<notin> set p \<longrightarrow> get_root_lang_code (p @ CHR ''-'' # rest) = lower p)
   \<and> (CHR ''-'' \<notin> set c \<longrightarrow> get_root_lang_code c = c)
   \<and> (map_of supported_language_map (get_root_lang_code d) = None \<longrightarrow>
        map_language_code (get_root_lang_code d) = Inl (ValueError ''Unsupported Language'')
        \<and> map_target_lang d = Inl (ValueError ''Unsupported Language'')
        \<and> (d \<noteq> ''auto'' \<longrightarrow> map_source_lang d = Inl (ValueError ''Unsupported Language'')))"
proof (intro conjI impI)
  assume "CHR ''-'' \<notin> set p"
  then show "get_root_lang_code (p @ CHR ''-'' # rest) = lower p" by (rule root_with_hyphen)
next
  assume "CHR ''-'' \<notin> set c"
  then show "get_root_lang_code c = c" by (rule root_without_hyphen)
next
  assume a: "map_of supported_language_map (get_root_lang_code d) = None"
  then show r: "map_language_code (get_root_lang_code d) = Inl (ValueError ''Unsupported Language'')"
    by (simp add: map_language_code_def)
  from map_language_code_root_absent[OF a] r
  show "map_target_lang d = Inl (ValueError ''Unsupported Language'')"
    by (simp add: map_target_lang_def)
  assume "d \<noteq> ''auto''"
  with r show "map_source_lang d = Inl (ValueError ''Unsupported Language'')"
    by (simp add: map_source_lang_def)
qed

theorem root_code_and_unsupported_witness:
  "CHR ''-'' \<notin> set ''EN'' \<and> get_root_lang_code ''EN-gb'' = ''en''
   \<and> get_root_lang_code ''EN'' = ''EN''
   \<and> map_of supported_language_map (get_root_lang_code ''xx-YY'') = None
   \<and> map_target_lang ''xx-YY'' = Inl (ValueError ''Unsupported Language'')
   \<and> ''xx-YY'' \<noteq> ''auto''
   \<and> map_source_lang ''xx-YY'' = Inl (ValueError ''Unsupported Language'')"
proof -
  have h1: "CHR ''-'' \<notin> set ''EN''" by simp
  have h3: "map_of supported_language_map (get_root_lang_code ''xx-YY'') = None"
    by (simp add: get_root_lang_code_def split_hyphen_0_def lower_def py_lower_char_def
                  supported_language_map_def)
  have h4: "''xx-YY'' \<noteq> ''auto''" by simp
  from root_code_and_unsupported[of "''EN''" "''gb''" "''EN''" "''xx-YY''"] h1 h3 h4
  show ?thesis by (simp add: lower_eval)
qed

text \<open>The code \<open>EN\<close> has no hyphen: its root is \<open>EN\<close>, not the lower-cased \<open>en\<close>.\<close>

theorem root_code_not_lowered_counterexample:
  "CHR ''-'' \<notin> set ''EN'' \<and> get_root_lang_code ''EN'' = ''EN'' \<and> lower ''EN'' = ''en''
   \<and> get_root_lang_code ''EN'' \<noteq> lower (split_hyphen_0 ''EN'')"
  by (simp add: get_root_lang_code_def split_hyphen_0_def lower_eval)

section \<open>Empty texts inside a batch\<close>

lemma index_map_ok_Some:
  assumes "index_map_ok texts tm" "tm i = Some q"
  shows "q < length texts \<and> strip (texts ! q) \<noteq> []"
proof -
  from assms have "i < length (filter (\<lambda>t. strip t \<noteq> []) texts)"
    unfolding index_map_ok_def by (metis not_le_imp_less option.distinct(1))
  from index_map_ok_next[OF assms(1) this] assms(2) show ?thesis by auto
qed

lemma scatter_blank_untouched:
  assumes "index_map_ok texts tm"
  shows "scatter texts tm src tgt rs i resp = Inr resp' \<Longrightarrow> p < length texts \<Longrightarrow>
         strip (texts ! p) = [] \<Longrightarrow> resp' ! p = resp ! p"
proof (induction rs arbitrary: i resp)
  case Nil
  then show ?case by simp
next
  case (Cons r rest)
  from Cons.prems(1) obtain q where q: "tm i = Some q"
    by (cases "tm i") auto
  from index_map_ok_Some[OF assms q] Cons.prems have ne: "q \<noteq> p" by auto
  from Cons.prems(1) q have
    "scatter texts tm src tgt rest (Suc i)
       (resp[q := Some (translated_response src tgt (texts ! q) (result_text r)
                          (sdk_detected_lang r src))]) = Inr resp'"
    by (auto simp: Let_def split: if_splits)
  from Cons.IH[OF this Cons.prems(2,3)] ne show ?case by simp
qed

lemma scatter_async_blank_untouched:
  assumes "index_map_ok texts tm"
  shows "scatter_async texts tm src tgt rs i resp = Inr resp' \<Longrightarrow> p < length texts \<Longrightarrow>
         strip (texts ! p) = [] \<Longrightarrow> resp' ! p = resp ! p"
proof (induction rs arbitrary: i resp)
  case Nil
  then show ?case by simp
next
  case (Cons r rest)
  from Cons.prems(1) obtain q where q: "tm i = Some q"
    by (cases "tm i") auto
  from Cons.prems(1) q obtain t where t: "tr_text r = Some t"
    by (cases "tr_text r") (auto simp: Let_def)
  from index_map_ok_Some[OF assms q] Cons.prems have ne: "q \<noteq> p" by auto
  from Cons.prems(1) q t have
    "scatter_async texts tm src tgt rest (Suc i)
       (resp[q := Some (translated_response src tgt (texts ! q) t
                          (json_detected_lang r src))]) = Inr resp'"
    by (auto simp: Let_def split: if_splits)
  from Cons.IH[OF this Cons.prems(2,3)] ne show ?case by simp
qed

lemma bulk_translate_try_blank:
  assumes "snd (snd (bulk_translate_try w self texts src tgt)) = Inr rs"
    and p: "p < length texts" "strip (texts ! p) = []"
  shows "rs ! p = create_response [] src tgt 0 None None"
proof (cases "filter (\<lambda>t. strip t \<noteq> []) texts = []")
  case True
  with assms show ?thesis by (auto simp: bulk_translate_try_all_blank)
next
  case False
  from assms(1) False obtain results resp' where
    "scatter texts (fst (filter_valid texts 0 (Map.empty, []))) src tgt
           (as_list results) 0 (replicate (length texts) None) = Inr resp'"
    and rs: "rs = fill_empty src tgt resp'"
    unfolding bulk_translate_try_def
    by (subst (asm) filter_valid_eq) (auto simp: Let_def split: sum.splits prod.splits)
  from scatter_blank_untouched[OF filter_valid_ok this(1) p] scatter_length[OF this(1)] p rs
  show ?thesis by (simp add: fill_empty_nth)
qed

lemma bulk_translate_async_try_blank:
  assumes "snd (bulk_translate_async_try w self texts src tgt) = Inr rs"
    and p: "p < length texts" "strip (texts ! p) = []"
  shows "rs ! p = create_response [] src tgt 0 None None"
proof (cases "filter (\<lambda>t. strip t \<noteq> []) texts = []")
  case True
  with assms show ?thesis by (auto simp: bulk_translate_async_try_all_blank)
next
  case False
  from assms(1) False obtain trs resp' where
    "scatter_async texts (fst (filter_valid texts 0 (Map.empty, []))) src tgt
           trs 0 (replicate (length texts) None) = Inr resp'"
    and rs: "rs = fill_empty src tgt resp'"
    unfolding bulk_translate_async_try_def
    by (subst (asm) filter_valid_eq) (auto simp: Let_def split: sum.splits prod.splits option.splits)
  from scatter_async_blank_untouched[OF filter_valid_ok this(1) p] scatter_async_length[OF this(1)] p rs
  show ?thesis by (simp add: fill_empty_nth)
qed

lemma bulk_translate_returned:
  "snd (snd (bulk_translate_try w self texts src tgt)) = Inr rs \<Longrightarrow>
     snd (snd (bulk_translate w self texts src tgt)) = rs"
  by (cases "bulk_translate_try w self texts src tgt")
     (auto simp: bulk_translate_def bulk_translate_try_all_blank)

lemma bulk_translate_async_returned:
  "snd (bulk_translate_async_try w self texts src tgt) = Inr rs \<Longrightarrow>
     snd (bulk_translate_async w self texts src tgt) = rs"
  by (cases "bulk_translate_async_try w self texts src tgt")
     (auto simp: bulk_translate_async_def bulk_translate_async_try_all_blank)

lemma bulk_translate_raised:
  "snd (snd (bulk_translate_try w self texts src tgt)) = Inl e \<Longrightarrow>
     snd (snd (bulk_translate w self texts src tgt)) =
       map (\<lambda>text. create_response [] src tgt (length text) None (Some (sync_error_message e))) texts"
  by (cases "bulk_translate_try w self texts src tgt")
     (auto simp: bulk_translate_def bulk_translate_try_all_blank)

lemma bulk_translate_async_raised:
  "snd (bulk_translate_async_try w self texts src tgt) = Inl e \<Longrightarrow>
     snd (bulk_translate_async w self texts src tgt) =
       map (\<lambda>text. create_response [] src tgt (length text) None (Some (async_error_message e))) texts"
  by (cases "bulk_translate_async_try w self texts src tgt")
     (auto simp: bulk_translate_async_def bulk_translate_async_try_all_blank)

section \<open>The operations in the concrete worlds\<close>

lemma init_demo_config:
  "init demo_config =
     \<lparr>config = demo_config, cached_client = None, is_free_api = True,
      base_url = ''https://api-free.deepl.com''\<rparr>"
  by (simp add: init_def demo_config_def is_free_api_key_def endswith_def suffix_to_prefix
                get_api_endpoint_def)

lemma client_demo:
  "deepl_Translator w = vendor_constructor \<Longrightarrow>
     client w (init demo_config) = ((init demo_config)\<lparr>cached_client := Some demo_client\<rparr>, Inr demo_client)"
  unfolding client_def init_demo_config
  by (simp add: demo_config_def vendor_constructor_def demo_client_def Let_def)

lemma world_constructors:
  "deepl_Translator echo_world = vendor_constructor" "deepl_Translator down_world = vendor_constructor"
  by (simp_all add: echo_world_def down_world_def)

lemma langs_en_es:
  "map_source_lang ''en'' = Inr (Some ''EN'')" "map_target_lang ''es'' = Inr ''ES''"
  by (simp_all add: map_source_lang_def map_target_lang_def map_language_code_def
                    get_root_lang_code_def supported_language_map_def)

lemma strip_examples:
  "strip ''Hello'' \<noteq> []" "strip ''World'' \<noteq> []" "strip ''  '' = []" "strip ''test'' \<noteq> []"
  by (simp_all add: strip_empty_iff py_isspace_def)

lemma valid_Hello_blank:
  "filter (\<lambda>t. strip t \<noteq> []) [''Hello'', ''  ''] = [''Hello'']"
  by (simp add: strip_examples)

lemma echo_bulk_try:
  "snd (snd (bulk_translate_try echo_world (init demo_config) [''Hello'', ''  ''] ''en'' ''es'')) =
     Inr [translated_response ''en'' ''es'' ''Hello'' ''Hello'' ''en'',
          create_response [] ''en'' ''es'' 0 None None]"
proof -
  have ne: "filter (\<lambda>t. strip t \<noteq> []) [''Hello'', ''  ''] \<noteq> []"
    by (simp add: strip_examples)
  show ?thesis
    unfolding bulk_translate_try_unfold[OF ne langs_en_es client_demo[OF world_constructors(1)]]
      valid_Hello_blank
    by (simp add: echo_world_def echo_texts_def strip_examples fill_empty_def
                  sdk_detected_lang_def lower_eval)
qed

lemma down_bulk_try:
  "snd (snd (bulk_translate_try down_world (init demo_config) [''Hello'', ''  ''] ''en'' ''es'')) =
     Inl (DeepLException ''Connection failed'')"
proof -
  have ne: "filter (\<lambda>t. strip t \<noteq> []) [''Hello'', ''  ''] \<noteq> []"
    by (simp add: strip_examples)
  show ?thesis
    unfolding bulk_translate_try_unfold[OF ne langs_en_es client_demo[OF world_constructors(2)]]
    by (simp add: down_world_def)
qed

section \<open>Responses for empty texts\<close>

lemma create_response_fields:
  "status (create_response txt src tgt n md None) = SUCCESS"
  "status (create_response txt src tgt n md (Some m)) = ERROR"
  "translated_text (create_response txt src tgt n md err) = txt"
  "char_count (create_response txt src tgt n md err) = n"
  "source_lang (create_response txt src tgt n md err) = src"
  "target_lang (create_response txt src tgt n md err) = tgt"
  "error (create_response txt src tgt n md err) = err"
  by (simp_all add: create_response_def)

text \<open>
  Claim C2, as the code has it. \<open>translate\<close> and \<open>translate_async\<close> answer every empty or
  whitespace-only text with the empty SUCCESS response of character count 0, without a
  network call. In a batch, the response of an empty or whitespace-only text is that same
  response whenever the \<open>try\<close> block returns; when the block raises a fault (a transport
  failure, an unsupported language), that text, like every other text of the batch, gets
  an ERROR response whose character count is the length of the text.
\<close>

theorem blank_text_response:
  "(strip text = [] \<longrightarrow>
      translate w self text src tgt = (self, [], create_response [] src tgt 0 None None)
      \<and> translate_async w self text src tgt = ([], create_response [] src tgt 0 None None))
   \<and> (p < length texts \<and> strip (texts ! p) = [] \<longrightarrow>
        (snd (snd (bulk_translate_try w self texts src tgt)) = Inr rs \<longrightarrow>
           snd (snd (bulk_translate w self texts src tgt)) ! p =
             create_response [] src tgt 0 None None)
        \<and> (snd (bulk_translate_async_try w self texts src tgt) = Inr rs' \<longrightarrow>
             snd (bulk_translate_async w self texts src tgt) ! p =
               create_response [] src tgt 0 None None)
        \<and> (snd (snd (bulk_translate_try w self texts src tgt)) = Inl e \<longrightarrow>
             snd (snd (bulk_translate w self texts src tgt)) ! p =
               create_response [] src tgt (length (texts ! p)) None
                 (Some (sync_error_message e)))
        \<and> (snd (bulk_translate_async_try w self texts src tgt) = Inl e' \<longrightarrow>
             snd (bulk_translate_async w self texts src tgt) ! p =
               create_response [] src tgt (length (texts ! p)) None
                 (Some (async_error_message e'))))
   \<and> status (create_response [] src tgt 0 None None) = SUCCESS
   \<and> translated_text (create_response [] src tgt 0 None None) = []
   \<and> char_count (create_response [] src tgt 0 None None) = 0
   \<and> status (create_response [] src tgt n None (Some m)) = ERROR"
proof (intro conjI impI)
  assume "strip text = []"
  then show "translate w self text src tgt = (self, [], create_response [] src tgt 0 None None)"
    and "translate_async w self text src tgt = ([], create_response [] src tgt 0 None None)"
    by (simp_all add: translate_blank translate_async_blank)
next
  assume p: "p < length texts \<and> strip (texts ! p) = []"
    and r: "snd (snd (bulk_translate_try w self texts src tgt)) = Inr rs"
  from bulk_translate_try_blank[OF r] p bulk_translate_returned[OF r]
  show "snd (snd (bulk_translate w self texts src tgt)) ! p = create_response [] src tgt 0 None None"
    by simp
next
  assume p: "p < length texts \<and> strip (texts ! p) = []"
    and r: "snd (bulk_translate_async_try w self texts src tgt) = Inr rs'"
  from bulk_translate_async_try_blank[OF r] p bulk_translate_async_returned[OF r]
  show "snd (bulk_translate_async w self texts src tgt) ! p = create_response [] src tgt 0 None None"
    by simp
next
  assume p: "p < length texts \<and> strip (texts ! p) = []"
    and r: "snd (snd (bulk_translate_try w self texts src tgt)) = Inl e"
  from bulk_translate_raised[OF r] p
  show "snd (snd (bulk_translate w self texts src tgt)) ! p =
          create_response [] src tgt (length (texts ! p)) None (Some (sync_error_message e))"
    by simp
next
  assume p: "p < length texts \<and> strip (texts ! p) = []"
    and r: "snd (bulk_translate_async_try w self texts src tgt) = Inl e'"
  from bulk_translate_async_raised[OF r] p
  show "snd (bulk_translate_async w self texts src tgt) ! p =
          create_response [] src tgt (length (texts ! p)) None (Some (async_error_message e'))"
    by simp
qed (simp_all add: create_response_fields)

lemma echo_bulk_async_try:
  "snd (bulk_translate_async_try echo_world (init demo_config) [''Hello'', ''  ''] ''en'' ''es'') =
     Inr [translated_response ''en'' ''es'' ''Hello'' ''Hello'' ''en'',
          create_response [] ''en'' ''es'' 0 None None]"
proof -
  have ne: "filter (\<lambda>t. strip t \<noteq> []) [''Hello'', ''  ''] \<noteq> []"
    by (simp add: strip_examples)
  show ?thesis
    unfolding bulk_translate_async_try_unfold[OF ne langs_en_es] valid_Hello_blank
    by (simp add: echo_world_def post_request_def strip_examples fill_empty_def
                  json_detected_lang_def lower_eval)
qed

lemma down_bulk_async_try:
  "snd (bulk_translate_async_try down_world (init demo_config) [''Hello'', ''  ''] ''en'' ''es'') =
     Inl (ClientError ''Connection failed'')"
proof -
  have ne: "filter (\<lambda>t. strip t \<noteq> []) [''Hello'', ''  ''] \<noteq> []"
    by (simp add: strip_examples)
  show ?thesis
    unfolding bulk_translate_async_try_unfold[OF ne langs_en_es]
    by (simp add: down_world_def)
qed

theorem blank_text_response_witness:
  "strip ''  '' = []
   \<and> translate echo_world (init demo_config) ''  '' ''en'' ''es'' =
        (init demo_config, [], create_response [] ''en'' ''es'' 0 None None)
   \<and> (1::nat) < length [''Hello'', ''  ''] \<and> strip ([''Hello'', ''  ''] ! 1) = []
   \<and> snd (snd (bulk_translate_try echo_world (init demo_config) [''Hello'', ''  ''] ''en'' ''es'')) =
        Inr [translated_response ''en'' ''es'' ''Hello'' ''Hello'' ''en'',
             create_response [] ''en'' ''es'' 0 None None]
   \<and> snd (snd (bulk_translate echo_world (init demo_config) [''Hello'', ''  ''] ''en'' ''es'')) ! 1 =
        create_response [] ''en'' ''es'' 0 None None
   \<and> snd (bulk_translate_async echo_world (init demo_config) [''Hello'', ''  ''] ''en'' ''es'') ! 1 =
        create_response [] ''en'' ''es'' 0 None None
   \<and> snd (snd (bulk_translate_try down_world (init demo_config) [''Hello'', ''  ''] ''en'' ''es'')) =
        Inl (DeepLException ''Connection failed'')
   \<and> snd (snd (bulk_translate down_world (init demo_config) [''Hello'', ''  ''] ''en'' ''es'')) ! 1 =
        create_response [] ''en'' ''es'' 2 None (Some ''DeepL API error: Connection failed'')
   \<and> snd (bulk_translate_async down_world (init demo_config) [''Hello'', ''  ''] ''en'' ''es'') ! 1 =
        create_response [] ''en'' ''es'' 2 None (Some ''DeepL API error: Connection failed'')"
proof -
  have h1: "strip ''  '' = []" by (rule strip_examples)
  have h2: "(1::nat) < length [''Hello'', ''  ''] \<and> strip ([''Hello'', ''  ''] ! 1) = []"
    by (simp add: strip_examples)
  note ok = blank_text_response[of "''  ''" echo_world "init demo_config" "''en''" "''es''"
              1 "[''Hello'', ''  '']"
              "[translated_response ''en'' ''es'' ''Hello'' ''Hello'' ''en'',
                create_response [] ''en'' ''es'' 0 None None]"
              "[translated_response ''en'' ''es'' ''Hello'' ''Hello'' ''en'',
                create_response [] ''en'' ''es'' 0 None None]"]
  note ko = blank_text_response[of "''  ''" down_world "init demo_config" "''en''" "''es''"
              1 "[''Hello'', ''  '']" _ _ "DeepLException ''Connection failed''"
              "ClientError ''Connection failed''"]
  from ok h1 h2 echo_bulk_try echo_bulk_async_try
  have a: "translate echo_world (init demo_config) ''  '' ''en'' ''es'' =
             (init demo_config, [], create_response [] ''en'' ''es'' 0 None None)"
    "snd (snd (bulk_translate echo_world (init demo_config) [''Hello'', ''  ''] ''en'' ''es'')) ! 1 =
        create_response [] ''en'' ''es'' 0 None None"
    "snd (bulk_translate_async echo_world (init demo_config) [''Hello'', ''  ''] ''en'' ''es'') ! 1 =
        create_response [] ''en'' ''es'' 0 None None"
    by blast+
  from ko h2 down_bulk_try down_bulk_async_try
  have b: "snd (snd (bulk_translate down_world (init demo_config) [''Hello'', ''  ''] ''en'' ''es'')) ! 1 =
        create_response [] ''en'' ''es'' (length ([''Hello'', ''  ''] ! 1)) None
          (Some (sync_error_message (DeepLException ''Connection failed'')))"
    "snd (bulk_translate_async down_world (init demo_config) [''Hello'', ''  ''] ''en'' ''es'') ! 1 =
        create_response [] ''en'' ''es'' (length ([''Hello'', ''  ''] ! 1)) None
          (Some (async_error_message (ClientError ''Connection failed'')))"
    by blast+
  from b have b': "snd (snd (bulk_translate down_world (init demo_config) [''Hello'', ''  ''] ''en'' ''es'')) ! 1 =
        create_response [] ''en'' ''es'' 2 None (Some ''DeepL API error: Connection failed'')"
    "snd (bulk_translate_async down_world (init demo_config) [''Hello'', ''  ''] ''en'' ''es'') ! 1 =
        create_response [] ''en'' ''es'' 2 None (Some ''DeepL API error: Connection failed'')"
    by (simp_all add: sync_error_message_def async_error_message_def numeral_2_eq_2)
  from h1 h2 a b' echo_bulk_try down_bulk_try show ?thesis by blast
qed

text \<open>
  In a batch that hits a transport failure, the whitespace-only text at index 1 gets an
  ERROR response with character count 2.
\<close>

theorem blank_text_in_failed_batch_counterexample:
  "strip ([''Hello'', ''  ''] ! 1) = []
   \<and> status (snd (snd (bulk_translate down_world (init demo_config) [''Hello'', ''  '']
                         ''en'' ''es'')) ! 1) = ERROR
   \<and> char_count (snd (snd (bulk_translate down_world (init demo_config) [''Hello'', ''  '']
                         ''en'' ''es'')) ! 1) = 2
   \<and> status (snd (bulk_translate_async down_world (init demo_config) [''Hello'', ''  '']
                         ''en'' ''es'') ! 1) = ERROR"
  by (simp add: bulk_translate_raised[OF down_bulk_try]
                bulk_translate_async_raised[OF down_bulk_async_try]
                strip_examples create_response_fields)

section \<open>Length and order of the responses of a batch\<close>

lemma filter_empty_nth: "filter P xs = [] \<Longrightarrow> p < length xs \<Longrightarrow> \<not> P (xs ! p)"
  by (simp add: filter_empty_conv)

lemma bulk_translate_pointwise:
  assumes src: "map_source_lang src = Inr sm" and tgt: "map_target_lang tgt = Inr tv"
    and cl: "client w self = (self', Inr c)"
    and remote: "translate_text w c (StrList (filter (\<lambda>t. strip t \<noteq> []) texts)) sm tv = Inr results"
    and len: "length (as_list results) \<le> length (filter (\<lambda>t. strip t \<noteq> []) texts)"
    and p: "p < length texts"
  shows "snd (snd (bulk_translate w self texts src tgt)) ! p =
           (if strip (texts ! p) \<noteq> [] \<and> valid_rank texts p < length (as_list results)
            then translated_response src tgt (texts ! p)
                   (result_text (as_list results ! valid_rank texts p))
                   (sdk_detected_lang (as_list results ! valid_rank texts p) src)
            else create_response [] src tgt 0 None None)"
proof (cases "filter (\<lambda>t. strip t \<noteq> []) texts = []")
  case True
  from filter_empty_nth[OF True p] have "strip (texts ! p) = []" by simp
  moreover from p have "texts \<noteq> []" by auto
  ultimately show ?thesis
    using p True by (simp add: bulk_translate_def bulk_translate_try_all_blank)
next
  case False
  from bulk_translate_success[OF False src tgt cl remote len] p show ?thesis by auto
qed

lemma bulk_translate_async_pointwise:
  assumes src: "map_source_lang src = Inr sm" and tgt: "map_target_lang tgt = Inr tv"
    and remote: "session_post w (post_request w self (filter (\<lambda>t. strip t \<noteq> []) texts) sm tv)
                   = Inr result"
    and trs: "json_translations result = Some trs"
    and present: "\<forall>t\<in>set trs. tr_text t \<noteq> None"
    and len: "length trs \<le> length (filter (\<lambda>t. strip t \<noteq> []) texts)"
    and p: "p < length texts"
  shows "snd (bulk_translate_async w self texts src tgt) ! p =
           (if strip (texts ! p) \<noteq> [] \<and> valid_rank texts p < length trs
            then translated_response src tgt (texts ! p)
                   (the (tr_text (trs ! valid_rank texts p)))
                   (json_detected_lang (trs ! valid_rank texts p) src)
            else create_response [] src tgt 0 None None)"
proof (cases "filter (\<lambda>t. strip t \<noteq> []) texts = []")
  case True
  from filter_empty_nth[OF True p] have "strip (texts ! p) = []" by simp
  moreover from p have "texts \<noteq> []" by auto
  ultimately show ?thesis
    using p True by (simp add: bulk_translate_async_def bulk_translate_async_try_all_blank)
next
  case False
  from bulk_translate_async_success[OF False src tgt remote trs present len] p show ?thesis by auto
qed

lemma valid_rank_bound:
  "p < length texts \<Longrightarrow> strip (texts ! p) \<noteq> [] \<Longrightarrow>
     valid_rank texts p < length (filter (\<lambda>t. strip t \<noteq> []) texts)"
  unfolding valid_rank_def by (rule filter_take_bound[where P = "\<lambda>t. strip t \<noteq> []"])





lemma valid_three:
  "filter (\<lambda>t. strip t \<noteq> []) [''Hello'', ''  '', ''World''] = [''Hello'', ''World'']"
  by (simp add: strip_examples)

lemma valid_rank_three:
  "valid_rank [''Hello'', ''  '', ''World''] 0 = 0"
  "valid_rank [''Hello'', ''  '', ''World''] 1 = 1"
  "valid_rank [''Hello'', ''  '', ''World''] 2 = 1"
  by (simp_all add: valid_rank_def strip_examples numeral_2_eq_2)

lemma echo_translate_text:
  "translate_text echo_world c (StrList ts) sm tv =
     Inr (TextResults (map (\<lambda>s. \<lparr>result_text = s, detected_source_lang = Some ''EN''\<rparr>) ts))"
  by (simp add: echo_world_def echo_texts_def)

lemma echo_session_post:
  "session_post echo_world r =
     Inr \<lparr>json_translations =
            Some (map (\<lambda>s. \<lparr>tr_text = Some s, tr_detected_source_language = Some ''EN''\<rparr>)
                    (json_text (json r)))\<rparr>"
  by (simp add: echo_world_def)





section \<open>The single network call of a batch\<close>

lemma bulk_translate_calls:
  assumes "filter (\<lambda>t. strip t \<noteq> []) texts \<noteq> []"
    and "map_source_lang src = Inr sm" and "map_target_lang tgt = Inr tv"
    and "client w self = (self', Inr c)"
  shows "fst (snd (bulk_translate w self texts src tgt)) =
           [SdkCall c (StrList (filter (\<lambda>t. strip t \<noteq> []) texts)) sm tv]"
proof -
  from assms(1) have "texts \<noteq> []" by auto
  then show ?thesis
    unfolding bulk_translate_def bulk_translate_try_unfold[OF assms]
    by (simp split: sum.splits)
qed

lemma bulk_translate_async_calls:
  assumes "filter (\<lambda>t. strip t \<noteq> []) texts \<noteq> []"
    and "map_source_lang src = Inr sm" and "map_target_lang tgt = Inr tv"
  shows "fst (bulk_translate_async w self texts src tgt) =
           [HttpCall (post_request w self (filter (\<lambda>t. strip t \<noteq> []) texts) sm tv)]"
proof -
  from assms(1) have "texts \<noteq> []" by auto
  then show ?thesis
    unfolding bulk_translate_async_def bulk_translate_async_try_unfold[OF assms]
    by (simp split: sum.splits option.splits)
qed

lemma bulk_no_calls:
  assumes "filter (\<lambda>t. strip t \<noteq> []) texts = []"
  shows "fst (snd (bulk_translate w self texts src tgt)) = []"
    and "fst (bulk_translate_async w self texts src tgt) = []"
  using assms
  by (simp_all add: bulk_translate_def bulk_translate_async_def bulk_translate_try_all_blank
                    bulk_translate_async_try_all_blank)

lemma count_valid:
  "length (filter (\<lambda>t. strip t \<noteq> []) texts) =
     length texts - length (filter (\<lambda>t. strip t = []) texts)"
  using sum_length_filter_compl[of "\<lambda>t. strip t = []" texts] by simp

text \<open>
  Claim C4, as the code has it. For a batch with at least one non-empty text, language
  codes that map and a vendor client at hand, \<open>bulk_translate\<close> makes exactly one network
  call, and it carries exactly the non-empty texts in their order: \<open>N - M\<close> of them, for
  \<open>N\<close> texts of which \<open>M\<close> are empty or whitespace-only. When the service returns one result
  per text sent, the result of each non-empty text is written at the text's original index
  and the empty positions get the empty SUCCESS response. \<open>bulk_translate_async\<close> does the
  same through one HTTP POST. A batch whose texts are all empty makes no call.
\<close>

theorem one_call_with_valid_texts:
  "(filter (\<lambda>t. strip t \<noteq> []) texts \<noteq> [] \<and> map_source_lang src = Inr sm
      \<and> map_target_lang tgt = Inr tv \<and> client w self = (self', Inr c) \<longrightarrow>
      fst (snd (bulk_translate w self texts src tgt)) =
        [SdkCall c (StrList (filter (\<lambda>t. strip t \<noteq> []) texts)) sm tv]
      \<and> (translate_text w c (StrList (filter (\<lambda>t. strip t \<noteq> []) texts)) sm tv = Inr results
          \<and> length (as_list results) = length (filter (\<lambda>t. strip t \<noteq> []) texts) \<longrightarrow>
          (\<forall>p<length texts.
             snd (snd (bulk_translate w self texts src tgt)) ! p =
               (if strip (texts ! p) \<noteq> []
                then translated_response src tgt (texts ! p)
                       (result_text (as_list results ! valid_rank texts p))
                       (sdk_detected_lang (as_list results ! valid_rank texts p) src)
                else create_response [] src tgt 0 None None))))
   \<and> (filter (\<lambda>t. strip t \<noteq> []) texts \<noteq> [] \<and> map_source_lang src = Inr sm
      \<and> map_target_lang tgt = Inr tv \<longrightarrow>
      fst (bulk_translate_async w self texts src tgt) =
        [HttpCall (post_request w self (filter (\<lambda>t. strip t \<noteq> []) texts) sm tv)]
      \<and> json_text (json (post_request w self (filter (\<lambda>t. strip t \<noteq> []) texts) sm tv)) =
          filter (\<lambda>t. strip t \<noteq> []) texts
      \<and> (session_post w (post_request w self (filter (\<lambda>t. strip t \<noteq> []) texts) sm tv)
            = Inr result
          \<and> json_translations result = Some trs \<and> (\<forall>t\<in>set trs. tr_text t \<noteq> None)
          \<and> length trs = length (filter (\<lambda>t. strip t \<noteq> []) texts) \<longrightarrow>
          (\<forall>p<length texts.
             snd (bulk_translate_async w self texts src tgt) ! p =
               (if strip (texts ! p) \<noteq> []
                then translated_response src tgt (texts ! p)
                       (the (tr_text (trs ! valid_rank texts p)))
                       (json_detected_lang (trs ! valid_rank texts p) src)
                else create_response [] src tgt 0 None None))))
   \<and> length (filter (\<lambda>t. strip t \<noteq> []) texts) =
        length texts - length (filter (\<lambda>t. strip t = []) texts)
   \<and> (filter (\<lambda>t. strip t \<noteq> []) texts = [] \<longrightarrow>
        fst (snd (bulk_translate w self texts src tgt)) = []
        \<and> fst (bulk_translate_async w self texts src tgt) = [])"
proof (intro conjI impI allI)
  assume h: "filter (\<lambda>t. strip t \<noteq> []) texts \<noteq> [] \<and> map_source_lang src = Inr sm
      \<and> map_target_lang tgt = Inr tv \<and> client w self = (self', Inr c)"
  then show "fst (snd (bulk_translate w self texts src tgt)) =
        [SdkCall c (StrList (filter (\<lambda>t. strip t \<noteq> []) texts)) sm tv]"
    by (intro bulk_translate_calls) auto
  fix p
  assume r: "translate_text w c (StrList (filter (\<lambda>t. strip t \<noteq> []) texts)) sm tv = Inr results
          \<and> length (as_list results) = length (filter (\<lambda>t. strip t \<noteq> []) texts)"
    and p: "p < length texts"
  from h r p have "snd (snd (bulk_translate w self texts src tgt)) ! p =
           (if strip (texts ! p) \<noteq> [] \<and> valid_rank texts p < length (as_list results)
            then translated_response src tgt (texts ! p)
                   (result_text (as_list results ! valid_rank texts p))
                   (sdk_detected_lang (as_list results ! valid_rank texts p) src)
            else create_response [] src tgt 0 None None)"
    by (intro bulk_translate_pointwise) auto
  with r valid_rank_bound[OF p]
  show "snd (snd (bulk_translate w self texts src tgt)) ! p =
               (if strip (texts ! p) \<noteq> []
                then translated_response src tgt (texts ! p)
                       (result_text (as_list results ! valid_rank texts p))
                       (sdk_detected_lang (as_list results ! valid_rank texts p) src)
                else create_response [] src tgt 0 None None)"
    by simp
next
  assume h: "filter (\<lambda>t. strip t \<noteq> []) texts \<noteq> [] \<and> map_source_lang src = Inr sm
      \<and> map_target_lang tgt = Inr tv"
  then show "fst (bulk_translate_async w self texts src tgt) =
        [HttpCall (post_request w self (filter (\<lambda>t. strip t \<noteq> []) texts) sm tv)]"
    by (intro bulk_translate_async_calls) auto
  show "json_text (json (post_request w self (filter (\<lambda>t. strip t \<noteq> []) texts) sm tv)) =
          filter (\<lambda>t. strip t \<noteq> []) texts"
    by (simp add: post_request_def)
  fix p
  assume r: "session_post w (post_request w self (filter (\<lambda>t. strip t \<noteq> []) texts) sm tv)
            = Inr result
          \<and> json_translations result = Some trs \<and> (\<forall>t\<in>set trs. tr_text t \<noteq> None)
          \<and> length trs = length (filter (\<lambda>t. strip t \<noteq> []) texts)"
    and p: "p < length texts"
  from h r p have "snd (bulk_translate_async w self texts src tgt) ! p =
           (if strip (texts ! p) \<noteq> [] \<and> valid_rank texts p < length trs
            then translated_response src tgt (texts ! p)
                   (the (tr_text (trs ! valid_rank texts p)))
                   (json_detected_lang (trs ! valid_rank texts p) src)
            else create_response [] src tgt 0 None None)"
    by (intro bulk_translate_async_pointwise[where result = result]) auto
  with r valid_rank_bound[OF p]
  show "snd (bulk_translate_async w self texts src tgt) ! p =
               (if strip (texts ! p) \<noteq> []
                then translated_response src tgt (texts ! p)
                       (the (tr_text (trs ! valid_rank texts p)))
                       (json_detected_lang (trs ! valid_rank texts p) src)
                else create_response [] src tgt 0 None None)"
    by simp
next
  show "length (filter (\<lambda>t. strip t \<noteq> []) texts) =
        length texts - length (filter (\<lambda>t. strip t = []) texts)"
    by (rule count_valid)
next
  assume "filter (\<lambda>t. strip t \<noteq> []) texts = []"
  then show "fst (snd (bulk_translate w self texts src tgt)) = []"
    and "fst (bulk_translate_async w self texts src tgt) = []"
    by (rule bulk_no_calls)+
qed

text \<open>A batch of one whitespace-only text (\<open>N = M = 1\<close>) makes no network call, not one.\<close>

theorem all_blank_batch_no_call_counterexample:
  "length [''  ''] = 1 \<and> length (filter (\<lambda>t. strip t = []) [''  '']) = 1
   \<and> fst (snd (bulk_translate echo_world (init demo_config) [''  ''] ''en'' ''es'')) = []
   \<and> length (fst (snd (bulk_translate echo_world (init demo_config) [''  ''] ''en'' ''es''))) \<noteq> 1"
proof -
  have "filter (\<lambda>t. strip t \<noteq> []) [''  ''] = []" by (simp add: strip_examples)
  from bulk_no_calls(1)[OF this] show ?thesis by (simp add: strip_examples)
qed

theorem one_call_with_valid_texts_witness:
  "filter (\<lambda>t. strip t \<noteq> []) [''Hello'', ''  '', ''World''] = [''Hello'', ''World'']
   \<and> map_source_lang ''en'' = Inr (Some ''EN'') \<and> map_target_lang ''es'' = Inr ''ES''
   \<and> client echo_world (init demo_config) =
        ((init demo_config)\<lparr>cached_client := Some demo_client\<rparr>, Inr demo_client)
   \<and> fst (snd (bulk_translate echo_world (init demo_config)
                 [''Hello'', ''  '', ''World''] ''en'' ''es'')) =
        [SdkCall demo_client (StrList [''Hello'', ''World'']) (Some ''EN'') ''ES'']
   \<and> snd (snd (bulk_translate echo_world (init demo_config)
                 [''Hello'', ''  '', ''World''] ''en'' ''es'')) ! 1 =
        create_response [] ''en'' ''es'' 0 None None
   \<and> snd (snd (bulk_translate echo_world (init demo_config)
                 [''Hello'', ''  '', ''World''] ''en'' ''es'')) ! 2 =
        translated_response ''en'' ''es'' ''World'' ''World'' ''en''
   \<and> fst (bulk_translate_async echo_world (init demo_config)
            [''Hello'', ''  '', ''World''] ''en'' ''es'') =
        [HttpCall (post_request echo_world (init demo_config) [''Hello'', ''World'']
                     (Some ''EN'') ''ES'')]
   \<and> snd (bulk_translate_async echo_world (init demo_config)
            [''Hello'', ''  '', ''World''] ''en'' ''es'') ! 2 =
        translated_response ''en'' ''es'' ''World'' ''World'' ''en''
   \<and> filter (\<lambda>t. strip t \<noteq> []) [''  ''] = []
   \<and> fst (snd (bulk_translate echo_world (init demo_config) [''  ''] ''en'' ''es'')) = []
   \<and> fst (bulk_translate_async echo_world (init demo_config) [''  ''] ''en'' ''es'') = []"
proof -
  let ?texts = "[''Hello'', ''  '', ''World'']"
  let ?results = "TextResults [\<lparr>result_text = ''Hello'', detected_source_lang = Some ''EN''\<rparr>,
                               \<lparr>result_text = ''World'', detected_source_lang = Some ''EN''\<rparr>]"
  let ?trs = "[\<lparr>tr_text = Some ''Hello'', tr_detected_source_language = Some ''EN''\<rparr>,
               \<lparr>tr_text = Some ''World'', tr_detected_source_language = Some ''EN''\<rparr>]"
  have cl: "client echo_world (init demo_config) =
              ((init demo_config)\<lparr>cached_client := Some demo_client\<rparr>, Inr demo_client)"
    by (rule client_demo[OF world_constructors(1)])
  have ne: "filter (\<lambda>t. strip t \<noteq> []) ?texts \<noteq> []" by (simp add: strip_examples)
  have remote: "translate_text echo_world demo_client
                  (StrList (filter (\<lambda>t. strip t \<noteq> []) ?texts)) (Some ''EN'') ''ES'' = Inr ?results"
    by (simp add: echo_translate_text strip_examples)
  have len: "length (as_list ?results) = length (filter (\<lambda>t. strip t \<noteq> []) ?texts)"
    by (simp add: strip_examples)
  have post: "session_post echo_world
                (post_request echo_world (init demo_config)
                   (filter (\<lambda>t. strip t \<noteq> []) ?texts) (Some ''EN'') ''ES'') =
              Inr \<lparr>json_translations = Some ?trs\<rparr>"
    by (simp add: echo_session_post strip_examples post_request_def)
  have present: "\<forall>t\<in>set ?trs. tr_text t \<noteq> None" by simp
  have len': "length ?trs = length (filter (\<lambda>t. strip t \<noteq> []) ?texts)"
    by (simp add: strip_examples)
  have blank: "filter (\<lambda>t. strip t \<noteq> []) [''  ''] = []" by (simp add: strip_examples)
  note ok = one_call_with_valid_texts[of ?texts "''en''" "Some ''EN''" "''es''" "''ES''"
              echo_world "init demo_config" "(init demo_config)\<lparr>cached_client := Some demo_client\<rparr>"
              demo_client ?results "\<lparr>json_translations = Some ?trs\<rparr>" ?trs]
  note none = one_call_with_valid_texts[of "[''  '']" "''en''" _ "''es''" _
              echo_world "init demo_config"]
  from ok ne langs_en_es cl
  have calls: "fst (snd (bulk_translate echo_world (init demo_config) ?texts ''en'' ''es'')) =
        [SdkCall demo_client (StrList (filter (\<lambda>t. strip t \<noteq> []) ?texts)) (Some ''EN'') ''ES'']"
    by blast
  from ok ne langs_en_es cl remote len
  have pt: "\<forall>p<length ?texts.
             snd (snd (bulk_translate echo_world (init demo_config) ?texts ''en'' ''es'')) ! p =
               (if strip (?texts ! p) \<noteq> []
                then translated_response ''en'' ''es'' (?texts ! p)
                       (result_text (as_list ?results ! valid_rank ?texts p))
                       (sdk_detected_lang (as_list ?results ! valid_rank ?texts p) ''en'')
                else create_response [] ''en'' ''es'' 0 None None)"
    by blast
  from ok ne langs_en_es
  have calls': "fst (bulk_translate_async echo_world (init demo_config) ?texts ''en'' ''es'') =
        [HttpCall (post_request echo_world (init demo_config)
                     (filter (\<lambda>t. strip t \<noteq> []) ?texts) (Some ''EN'') ''ES'')]"
    by blast
  from ok ne langs_en_es post present len'
  have pt': "\<forall>p<length ?texts.
             snd (bulk_translate_async echo_world (init demo_config) ?texts ''en'' ''es'') ! p =
               (if strip (?texts ! p) \<noteq> []
                then translated_response ''en'' ''es'' (?texts ! p)
                       (the (tr_text (?trs ! valid_rank ?texts p)))
                       (json_detected_lang (?trs ! valid_rank ?texts p) ''en'')
                else create_response [] ''en'' ''es'' 0 None None)"
    by simp
  have r1: "snd (snd (bulk_translate echo_world (init demo_config) ?texts ''en'' ''es'')) ! 1 =
        create_response [] ''en'' ''es'' 0 None None"
    using pt[rule_format, of 1] by (simp add: strip_examples)
  have r2: "snd (snd (bulk_translate echo_world (init demo_config) ?texts ''en'' ''es'')) ! 2 =
        translated_response ''en'' ''es'' ''World'' ''World'' ''en''"
    using pt[rule_format, of 2]
    by (simp add: valid_rank_three strip_examples sdk_detected_lang_def lower_eval)
  have a2: "snd (bulk_translate_async echo_world (init demo_config) ?texts ''en'' ''es'') ! 2 =
        translated_response ''en'' ''es'' ''World'' ''World'' ''en''"
    using pt'[rule_format, of 2]
    by (simp add: valid_rank_three strip_examples json_detected_lang_def lower_eval)
  from none blank
  have z: "fst (snd (bulk_translate echo_world (init demo_config) [''  ''] ''en'' ''es'')) = []"
    "fst (bulk_translate_async echo_world (init demo_config) [''  ''] ''en'' ''es'') = []"
    by blast+
  from calls calls' have c: "fst (snd (bulk_translate echo_world (init demo_config) ?texts ''en'' ''es'')) =
        [SdkCall demo_client (StrList [''Hello'', ''World'']) (Some ''EN'') ''ES'']"
    "fst (bulk_translate_async echo_world (init demo_config) ?texts ''en'' ''es'') =
        [HttpCall (post_request echo_world (init demo_config) [''Hello'', ''World'']
                     (Some ''EN'') ''ES'')]"
    by (simp_all add: strip_examples)
  from valid_three langs_en_es cl c r1 r2 a2 blank z show ?thesis by blast
qed

section \<open>Normalisation of the source and target languages\<close>

lemma table_values_nonempty:
  assumes "map_of supported_language_map k = Some v"
  shows "v \<noteq> []"
proof -
  have "\<forall>kv\<in>set supported_language_map. snd kv \<noteq> []"
    by (simp add: supported_language_map_def)
  with map_of_SomeD[OF assms] show ?thesis by fastforce
qed

lemma map_target_lang_exact:
  "map_of supported_language_map tgt = Some tv \<Longrightarrow> map_target_lang tgt = Inr tv"
  by (simp add: map_target_lang_def map_language_code_def)

lemma map_target_lang_root:
  "map_of supported_language_map tgt = None \<Longrightarrow>
     map_of supported_language_map (get_root_lang_code tgt) = Some tv \<Longrightarrow>
     map_target_lang tgt = Inr tv"
  by (simp add: map_target_lang_def map_language_code_def)

lemma map_source_lang_auto: "map_source_lang ''auto'' = Inr None"
  by (simp add: map_source_lang_def)

lemma map_source_lang_root:
  "src \<noteq> ''auto'' \<Longrightarrow> map_of supported_language_map (get_root_lang_code src) = Some sv \<Longrightarrow>
     map_source_lang src = Inr (Some sv)"
  by (simp add: map_source_lang_def map_language_code_def)

lemma translate_calls:
  assumes "strip text \<noteq> []" "length text \<le> max_chunk_size"
    and "map_source_lang src = Inr sm" and "map_target_lang tgt = Inr tv"
    and "client w self = (self', Inr c)"
  shows "fst (snd (translate w self text src tgt)) = [SdkCall c (Str text) sm tv]"
  using assms
  by (simp add: translate_def translate_try_def Let_def split: sum.splits sdk_result.splits)

lemma translate_async_calls:
  assumes "strip text \<noteq> []" "length text \<le> max_chunk_size"
    and "map_source_lang src = Inr sm" and "map_target_lang tgt = Inr tv"
  shows "fst (translate_async w self text src tgt) = [HttpCall (post_request w self [text] sm tv)]"
  using assms
  by (simp add: translate_async_def translate_async_try_def Let_def
           split: sum.splits option.splits list.splits)

text \<open>
  Claim C6. The target language is looked up as supplied, and only when that lookup fails
  is the root code looked up. The source language, when it is not \<open>auto\<close>, is reduced to
  its root code first and only the root is looked up; \<open>auto\<close> is sent as no source language.
  Each of the four translate operations sends exactly these two values in its network call.
\<close>

theorem source_and_target_normalization:
  assumes "map_of supported_language_map tgt = Some tv
           \<or> (map_of supported_language_map tgt = None
               \<and> map_of supported_language_map (get_root_lang_code tgt) = Some tv)"
    and "(src = ''auto'' \<and> sm = None)
         \<or> (src \<noteq> ''auto'' \<and> sm = Some sv
             \<and> map_of supported_language_map (get_root_lang_code src) = Some sv)"
    and "strip text \<noteq> []" and "length text \<le> 30000"
    and "filter (\<lambda>t. strip t \<noteq> []) texts \<noteq> []"
    and "client w self = (self', Inr c)"
  shows "fst (snd (translate w self text src tgt)) = [SdkCall c (Str text) sm tv]
       \<and> fst (snd (bulk_translate w self texts src tgt)) =
           [SdkCall c (StrList (filter (\<lambda>t. strip t \<noteq> []) texts)) sm tv]
       \<and> fst (translate_async w self text src tgt) =
           [HttpCall (post_request w self [text] sm tv)]
       \<and> fst (bulk_translate_async w self texts src tgt) =
           [HttpCall (post_request w self (filter (\<lambda>t. strip t \<noteq> []) texts) sm tv)]
       \<and> json_source_lang (json (post_request w self [text] sm tv)) = sm
       \<and> json_target_lang (json (post_request w self [text] sm tv)) = tv"
proof -
  from assms(1) have t: "map_target_lang tgt = Inr tv"
    by (auto intro: map_target_lang_exact map_target_lang_root)
  from assms(2) have s: "map_source_lang src = Inr sm"
    by (auto intro: map_source_lang_root simp: map_source_lang_auto)
  from assms(2) have ne: "sm = None \<or> (\<exists>v. sm = Some v \<and> v \<noteq> [])"
    by (auto dest: table_values_nonempty)
  from assms(4) have l: "length text \<le> max_chunk_size" by (simp add: max_chunk_size_def)
  have "json_source_lang (json (post_request w self [text] sm tv)) = sm"
    using ne by (auto simp: post_request_def)
  moreover have "json_target_lang (json (post_request w self [text] sm tv)) = tv"
    by (simp add: post_request_def)
  ultimately show ?thesis
    using translate_calls[OF assms(3) l s t assms(6)]
      bulk_translate_calls[OF assms(5) s t assms(6)]
      translate_async_calls[OF assms(3) l s t, of w self]
      bulk_translate_async_calls[OF assms(5) s t, of w self]
    by simp
qed

lemma table_examples:
  "map_of supported_language_map ''en-GB'' = Some ''EN-GB''"
  "map_of supported_language_map ''en'' = Some ''EN''"
  "map_of supported_language_map ''de-AT'' = None"
  "map_of supported_language_map ''de'' = Some ''DE''"
  by (simp_all add: supported_language_map_def)

lemma root_examples:
  "get_root_lang_code ''en-GB'' = ''en''" "get_root_lang_code ''de-AT'' = ''de''"
  by (simp_all add: get_root_lang_code_def split_hyphen_0_def lower_def py_lower_char_def)

theorem source_and_target_normalization_witness:
  "map_of supported_language_map ''en-GB'' = Some ''EN-GB''
   \<and> ''en-GB'' \<noteq> ''auto''
   \<and> map_of supported_language_map (get_root_lang_code ''en-GB'') = Some ''EN''
   \<and> strip ''Hello'' \<noteq> [] \<and> length ''Hello'' \<le> 30000
   \<and> filter (\<lambda>t. strip t \<noteq> []) [''Hello'', ''  ''] \<noteq> []
   \<and> client echo_world (init demo_config) =
        ((init demo_config)\<lparr>cached_client := Some demo_client\<rparr>, Inr demo_client)
   \<and> fst (snd (translate echo_world (init demo_config) ''Hello'' ''en-GB'' ''en-GB'')) =
        [SdkCall demo_client (Str ''Hello'') (Some ''EN'') ''EN-GB'']
   \<and> fst (snd (bulk_translate echo_world (init demo_config) [''Hello'', ''  ''] ''en-GB'' ''en-GB'')) =
        [SdkCall demo_client (StrList [''Hello'']) (Some ''EN'') ''EN-GB'']
   \<and> fst (translate_async echo_world (init demo_config) ''Hello'' ''en-GB'' ''en-GB'') =
        [HttpCall (post_request echo_world (init demo_config) [''Hello''] (Some ''EN'') ''EN-GB'')]
   \<and> map_of supported_language_map ''de-AT'' = None
   \<and> map_of supported_language_map (get_root_lang_code ''de-AT'') = Some ''DE''
   \<and> fst (snd (translate echo_world (init demo_config) ''Hello'' ''auto'' ''de-AT'')) =
        [SdkCall demo_client (Str ''Hello'') None ''DE'']
   \<and> fst (bulk_translate_async echo_world (init demo_config) [''Hello'', ''  ''] ''auto'' ''de-AT'') =
        [HttpCall (post_request echo_world (init demo_config) [''Hello''] None ''DE'')]"
proof -
  have t1: "map_of supported_language_map ''en-GB'' = Some ''EN-GB''
           \<or> (map_of supported_language_map ''en-GB'' = None
               \<and> map_of supported_language_map (get_root_lang_code ''en-GB'') = Some ''EN-GB'')"
    by (simp add: table_examples)
  have s1: "(''en-GB'' = ''auto'' \<and> Some ''EN'' = None)
         \<or> (''en-GB'' \<noteq> ''auto'' \<and> Some ''EN'' = Some ''EN''
             \<and> map_of supported_language_map (get_root_lang_code ''en-GB'') = Some ''EN'')"
    by (simp add: table_examples root_examples)
  have t2: "map_of supported_language_map ''de-AT'' = Some ''DE''
           \<or> (map_of supported_language_map ''de-AT'' = None
               \<and> map_of supported_language_map (get_root_lang_code ''de-AT'') = Some ''DE'')"
    by (simp add: table_examples root_examples)
  have s2: "(''auto'' = ''auto'' \<and> (None :: string option) = None)
         \<or> (''auto'' \<noteq> ''auto'' \<and> None = Some sv
             \<and> map_of supported_language_map (get_root_lang_code ''auto'') = Some sv)" for sv
    by simp
  have x: "strip ''Hello'' \<noteq> []" by (rule strip_examples)
  have l: "length ''Hello'' \<le> 30000" by simp
  have ne: "filter (\<lambda>t. strip t \<noteq> []) [''Hello'', ''  ''] \<noteq> []" by (simp add: strip_examples)
  have cl: "client echo_world (init demo_config) =
              ((init demo_config)\<lparr>cached_client := Some demo_client\<rparr>, Inr demo_client)"
    by (rule client_demo[OF world_constructors(1)])
  note a = source_and_target_normalization[OF t1 s1 x l ne cl]
  note b = source_and_target_normalization[OF t2 s2 x l ne cl]
  from a b table_examples root_examples x l ne cl show ?thesis
    by (simp add: strip_examples)
qed

section \<open>Endpoint selection\<close>

lemma init_override_config:
  "init override_config =
     \<lparr>config = override_config, cached_client = None, is_free_api = False,
      base_url = ''https://api.deepl.com''\<rparr>"
  by (simp add: init_def override_config_def is_free_api_key_def endswith_def suffix_to_prefix
                get_api_endpoint_def)

lemma client_override:
  "deepl_Translator w = vendor_constructor \<Longrightarrow>
     client w (init override_config) =
       ((init override_config)\<lparr>cached_client :=
           Some \<lparr>auth_key = ''test-deepl-key'', server_url = ''https://proxy.example''\<rparr>\<rparr>,
        Inr \<lparr>auth_key = ''test-deepl-key'', server_url = ''https://proxy.example''\<rparr>)"
  unfolding client_def init_override_config
  by (simp add: override_config_def vendor_constructor_def Let_def)

lemma base_url_init:
  "base_url (init cfg) =
     (if endswith (api_key cfg) '':fx'' then ''https://api-free.deepl.com''
      else ''https://api.deepl.com'')"
  by (simp add: init_def is_free_api_key_def get_api_endpoint_def)

text \<open>
  Claim C5. The base URL is derived from the key alone: the free-tier URL for a key ending
  in \<open>:fx\<close>, the paid-tier URL otherwise; and the asynchronous path always posts to that
  base URL. At a configuration with a paid-tier key and an endpoint override, the
  synchronous path builds its client with the override, while the asynchronous path posts
  to the derived URL: it does not look at the override.
\<close>

theorem async_ignores_endpoint_override:
  "base_url (init cfg) =
     (if endswith (api_key cfg) '':fx'' then ''https://api-free.deepl.com''
      else ''https://api.deepl.com'')
   \<and> url (post_request w (init cfg) ts sm tv) = base_url (init cfg) @ ''/v2/translate''
   \<and> endpoint override_config = Some ''https://proxy.example''
   \<and> base_url (init override_config) = ''https://api.deepl.com''
   \<and> fst (snd (translate echo_world (init override_config) ''Hello'' ''en'' ''es'')) =
        [SdkCall \<lparr>auth_key = ''test-deepl-key'', server_url = ''https://proxy.example''\<rparr>
           (Str ''Hello'') (Some ''EN'') ''ES'']
   \<and> fst (translate_async echo_world (init override_config) ''Hello'' ''en'' ''es'') =
        [HttpCall (post_request echo_world (init override_config) [''Hello''] (Some ''EN'') ''ES'')]
   \<and> url (post_request echo_world (init override_config) [''Hello''] (Some ''EN'') ''ES'') =
        ''https://api.deepl.com/v2/translate''
   \<and> fst (bulk_translate_async echo_world (init override_config) [''Hello'', ''  ''] ''en'' ''es'') =
        [HttpCall (post_request echo_world (init override_config) [''Hello''] (Some ''EN'') ''ES'')]"
proof -
  have l: "length ''Hello'' \<le> max_chunk_size" by (simp add: max_chunk_size_def)
  have ne: "filter (\<lambda>t. strip t \<noteq> []) [''Hello'', ''  ''] \<noteq> []" by (simp add: strip_examples)
  have u: "url (post_request echo_world (init override_config) [''Hello''] (Some ''EN'') ''ES'') =
        ''https://api.deepl.com/v2/translate''"
    unfolding post_request_def init_override_config by simp
  have e: "endpoint override_config = Some ''https://proxy.example''"
    by (simp add: override_config_def)
  have b: "base_url (init override_config) = ''https://api.deepl.com''"
    by (simp add: init_override_config)
  from translate_calls[OF strip_examples(1) l langs_en_es client_override[OF world_constructors(1)]]
    translate_async_calls[OF strip_examples(1) l langs_en_es, of echo_world "init override_config"]
    bulk_translate_async_calls[OF ne langs_en_es, of echo_world "init override_config"]
    u e b base_url_init[of cfg]
  show ?thesis by (simp add: strip_examples post_request_def)
qed

section \<open>Faults at the operation boundary\<close>

lemma translate_raised:
  "snd (snd (translate_try w self text src tgt)) = Inl e \<Longrightarrow>
     snd (snd (translate w self text src tgt)) =
       create_response [] src tgt (length text) None (Some (sync_error_message e))"
  by (cases "translate_try w self text src tgt") (auto simp: translate_def)

lemma translate_async_raised:
  "snd (translate_async_try w self text src tgt) = Inl e \<Longrightarrow>
     snd (translate_async w self text src tgt) =
       create_response [] src tgt (length text) None (Some (async_error_message e))"
  by (cases "translate_async_try w self text src tgt") (auto simp: translate_async_def)

lemma init_no_key_config:
  "init no_key_config =
     \<lparr>config = no_key_config, cached_client = None, is_free_api = False,
      base_url = ''https://api.deepl.com''\<rparr>"
  by (simp add: init_def no_key_config_def is_free_api_key_def endswith_def suffix_to_prefix
                get_api_endpoint_def)

lemma client_no_key:
  "client echo_world (init no_key_config) =
     (init no_key_config, Inl (ValueError ''auth_key must not be empty''))"
  "client key_checking_world (init no_key_config) =
     (init no_key_config, Inl (ConfigurationError ''API key is required''))"
  unfolding client_def init_no_key_config
  by (simp_all add: no_key_config_def echo_world_def key_checking_world_def
                    vendor_constructor_def Let_def)

lemma translate_client_fault:
  assumes "strip text \<noteq> []" "length text \<le> max_chunk_size"
    and "map_source_lang src = Inr sm" and "map_target_lang tgt = Inr tv"
    and "client w self = (self', Inl e)"
  shows "translate w self text src tgt =
           (self', [], create_response [] src tgt (length text) None (Some (sync_error_message e)))"
  using assms by (simp add: translate_def translate_try_def)

lemma bulk_translate_client_fault:
  assumes "filter (\<lambda>t. strip t \<noteq> []) texts \<noteq> []"
    and "map_source_lang src = Inr sm" and "map_target_lang tgt = Inr tv"
    and "client w self = (self', Inl e)"
  shows "bulk_translate w self texts src tgt =
           (self', [], map (\<lambda>text. create_response [] src tgt (length text) None
                                      (Some (sync_error_message e))) texts)"
proof -
  from assms(1) have "texts \<noteq> []" by auto
  moreover have "bulk_translate_try w self texts src tgt = (self', [], Inl e)"
    unfolding bulk_translate_try_def
    by (subst filter_valid_eq) (simp add: assms)
  ultimately show ?thesis by (simp add: bulk_translate_def)
qed

text \<open>
  Claim C3 at a configuration with an empty API key. Construction records the
  configuration. \<open>translate\<close> then reaches the client constructor inside its \<open>try\<close> block:
  the fault raised there (the vendor's \<open>ValueError\<close>, or a configuration fault in a world
  whose constructor raises one) is caught like every other and comes back as an ERROR
  response; nothing is raised to the caller. \<open>translate_async\<close> does not check the key at
  all and sends the request with an empty key.
\<close>

theorem missing_api_key_is_error_response:
  "api_key no_key_config = []
   \<and> config (init no_key_config) = no_key_config
   \<and> translate echo_world (init no_key_config) ''test'' ''en'' ''es'' =
        (init no_key_config, [],
         create_response [] ''en'' ''es'' 4 None (Some ''auth_key must not be empty''))
   \<and> status (snd (snd (translate echo_world (init no_key_config) ''test'' ''en'' ''es''))) = ERROR
   \<and> translate key_checking_world (init no_key_config) ''test'' ''en'' ''es'' =
        (init no_key_config, [],
         create_response [] ''en'' ''es'' 4 None (Some ''API key is required''))
   \<and> bulk_translate key_checking_world (init no_key_config) [''test''] ''en'' ''es'' =
        (init no_key_config, [],
         [create_response [] ''en'' ''es'' 4 None (Some ''API key is required'')])
   \<and> fst (translate_async echo_world (init no_key_config) ''test'' ''en'' ''es'') =
        [HttpCall (post_request echo_world (init no_key_config) [''test''] (Some ''EN'') ''ES'')]
   \<and> headers (post_request echo_world (init no_key_config) [''test''] (Some ''EN'') ''ES'') =
        [(''Authorization'', ''DeepL-Auth-Key ''), (''Content-Type'', ''application/json''),
         (''User-Agent'', ''mt_providers'')]"
proof -
  have l: "length ''test'' \<le> max_chunk_size" by (simp add: max_chunk_size_def)
  have ne: "filter (\<lambda>t. strip t \<noteq> []) [''test''] \<noteq> []" by (simp add: strip_examples)
  have h: "headers (post_request echo_world (init no_key_config) [''test''] (Some ''EN'') ''ES'') =
        [(''Authorization'', ''DeepL-Auth-Key ''), (''Content-Type'', ''application/json''),
         (''User-Agent'', ''mt_providers'')]"
    unfolding post_request_def get_headers_def init_no_key_config
    by (simp add: no_key_config_def echo_world_def)
  have k: "api_key no_key_config = []" "config (init no_key_config) = no_key_config"
    by (simp_all add: no_key_config_def init_def)
  from translate_client_fault[OF strip_examples(4) l langs_en_es client_no_key(1)]
    translate_client_fault[OF strip_examples(4) l langs_en_es client_no_key(2)]
    bulk_translate_client_fault[OF ne langs_en_es client_no_key(2)]
    translate_async_calls[OF strip_examples(4) l langs_en_es, of echo_world "init no_key_config"]
    h k
  show ?thesis by (simp add: sync_error_message_def create_response_fields eval_nat_numeral)
qed

section \<open>Auxiliary read operations under failure\<close>

lemma get_supported_languages_raised:
  "snd (get_supported_languages_try w self) = Inl e \<Longrightarrow>
     snd (get_supported_languages w self) = fallback_languages"
  by (cases "get_supported_languages_try w self") (auto simp: get_supported_languages_def)

lemma get_usage_info_raised:
  "snd (get_usage_info_try w self) = Inl e \<Longrightarrow> snd (get_usage_info w self) = []"
  by (cases "get_usage_info_try w self") (auto simp: get_usage_info_def)

text \<open>
  Claim C9. \<open>get_supported_languages\<close> and \<open>get_usage_info\<close> return a value for every
  world. Whenever building the client or a remote query raises a fault,
  \<open>get_supported_languages\<close> returns the fixed fallback lists and \<open>get_usage_info\<close> returns
  the empty result.
\<close>

theorem read_operations_degrade:
  "(snd (client w self) = Inl e \<longrightarrow>
      snd (get_supported_languages w self) = fallback_languages
      \<and> snd (get_usage_info w self) = [])
   \<and> (client w self = (self', Inr c)
        \<and> (get_source_languages w c = Inl e \<or> get_target_languages w c = Inl e) \<longrightarrow>
        get_supported_languages w self = (self', fallback_languages))
   \<and> (client w self = (self', Inr c) \<and> get_usage w c = Inl e \<longrightarrow>
        get_usage_info w self = (self', []))
   \<and> (snd (get_supported_languages_try w self) = Inl e \<longrightarrow>
        snd (get_supported_languages w self) = fallback_languages)
   \<and> (snd (get_usage_info_try w self) = Inl e \<longrightarrow> snd (get_usage_info w self) = [])
   \<and> source fallback_languages =
        [''en'', ''de'', ''fr'', ''es'', ''pt'', ''it'', ''ru'', ''ja'', ''zh'', ''pl'', ''nl'',
         ''sv'', ''da'', ''no'', ''fi'']
   \<and> target fallback_languages =
        [''en-us'', ''en-gb'', ''de'', ''fr'', ''es'', ''pt-pt'', ''pt-br'', ''it'', ''ru'', ''ja'',
         ''zh'', ''pl'', ''nl'', ''sv'', ''da'', ''no'', ''fi'']"
proof (intro conjI impI)
  assume a: "snd (client w self) = Inl e"
  then show "snd (get_supported_languages w self) = fallback_languages"
    by (cases "client w self")
       (simp add: get_supported_languages_def get_supported_languages_try_def)
  from a show "snd (get_usage_info w self) = []"
    by (cases "client w self") (simp add: get_usage_info_def get_usage_info_try_def)
next
  assume "client w self = (self', Inr c)
        \<and> (get_source_languages w c = Inl e \<or> get_target_languages w c = Inl e)"
  then show "get_supported_languages w self = (self', fallback_languages)"
    by (auto simp: get_supported_languages_def get_supported_languages_try_def
             split: sum.splits)
next
  assume "client w self = (self', Inr c) \<and> get_usage w c = Inl e"
  then show "get_usage_info w self = (self', [])"
    by (simp add: get_usage_info_def get_usage_info_try_def)
next
  assume "snd (get_supported_languages_try w self) = Inl e"
  then show "snd (get_supported_languages w self) = fallback_languages"
    by (rule get_supported_languages_raised)
next
  assume "snd (get_usage_info_try w self) = Inl e"
  then show "snd (get_usage_info w self) = []"
    by (rule get_usage_info_raised)
qed (simp_all add: fallback_languages_def)

theorem read_operations_degrade_witness:
  "snd (client echo_world (init no_key_config)) = Inl (ValueError ''auth_key must not be empty'')
   \<and> snd (get_supported_languages echo_world (init no_key_config)) = fallback_languages
   \<and> snd (get_usage_info echo_world (init no_key_config)) = []
   \<and> client down_world (init demo_config) =
        ((init demo_config)\<lparr>cached_client := Some demo_client\<rparr>, Inr demo_client)
   \<and> get_source_languages down_world demo_client = Inl (DeepLException ''Connection failed'')
   \<and> get_usage down_world demo_client = Inl (DeepLException ''Connection failed'')
   \<and> get_supported_languages down_world (init demo_config) =
        ((init demo_config)\<lparr>cached_client := Some demo_client\<rparr>, fallback_languages)
   \<and> get_usage_info down_world (init demo_config) =
        ((init demo_config)\<lparr>cached_client := Some demo_client\<rparr>, [])
   \<and> snd (get_supported_languages_try down_world (init demo_config)) =
        Inl (DeepLException ''Connection failed'')
   \<and> snd (get_usage_info_try down_world (init demo_config)) =
        Inl (DeepLException ''Connection failed'')"
proof -
  have c1: "snd (client echo_world (init no_key_config)) =
              Inl (ValueError ''auth_key must not be empty'')"
    by (simp add: client_no_key)
  have c2: "client down_world (init demo_config) =
        ((init demo_config)\<lparr>cached_client := Some demo_client\<rparr>, Inr demo_client)"
    by (rule client_demo[OF world_constructors(2)])
  have r: "get_source_languages down_world demo_client = Inl (DeepLException ''Connection failed'')"
    "get_usage down_world demo_client = Inl (DeepLException ''Connection failed'')"
    by (simp_all add: down_world_def)
  have t: "snd (get_supported_languages_try down_world (init demo_config)) =
        Inl (DeepLException ''Connection failed'')"
    "snd (get_usage_info_try down_world (init demo_config)) =
        Inl (DeepLException ''Connection failed'')"
    by (simp_all add: get_supported_languages_try_def get_usage_info_try_def c2 r)
  note a = read_operations_degrade[of echo_world "init no_key_config"
             "ValueError ''auth_key must not be empty''"]
  note b = read_operations_degrade[of down_world "init demo_config"
             "DeepLException ''Connection failed''"
             "(init demo_config)\<lparr>cached_client := Some demo_client\<rparr>" demo_client]
  from a c1 have x: "snd (get_supported_languages echo_world (init no_key_config)) = fallback_languages"
    "snd (get_usage_info echo_world (init no_key_config)) = []"
    by blast+
  from b c2 r have y: "get_supported_languages down_world (init demo_config) =
        ((init demo_config)\<lparr>cached_client := Some demo_client\<rparr>, fallback_languages)"
    "get_usage_info down_world (init demo_config) =
        ((init demo_config)\<lparr>cached_client := Some demo_client\<rparr>, [])"
    by blast+
  from c1 c2 r t x y show ?thesis by blast
qed

end
